theory Spec2Isabelle
  imports Complex_Main "HOL-Library.Word"
begin

unbundle bit_operations_syntax

section \<open>The runner simulation of startGame\<close>

text \<open>
  A shallow embedding of the simulation engine inside \<^verbatim>\<open>startGame\<close>: the variables the
  closure captures become the fields of the record \<open>Game\<close>, every inner function becomes
  a function from \<open>Game\<close> to \<open>Game\<close> (with a result where the source returns one).

  Conventions of the embedding:
  \<^item> JavaScript numbers are modelled as \<open>real\<close>: rounding, NaN and the infinities of
    IEEE doubles are not represented. The 32-bit integer operations of \<^verbatim>\<open>mulberry32\<close>
    are modelled with \<open>32 word\<close>.
  \<^item> \<^verbatim>\<open>Math.random()\<close> reads the next element of a stream \<open>rnd\<close> carried by the state
    (\<open>rndPos\<close> is the number of draws made so far).
  \<^item> Record fields named \<^verbatim>\<open>x\<close>, \<^verbatim>\<open>y\<close>, \<^verbatim>\<open>w\<close>, \<^verbatim>\<open>h\<close> in several source
    types carry a prefix here (\<open>ob_\<close>, \<open>d_\<close>, \<open>r_\<close>, \<open>cl_\<close>, \<open>p_\<close>), since a field
    name is a global constant in HOL.
  \<^item> Drawing, the DOM, \<^verbatim>\<open>localStorage\<close> and the canvas are outside the model:
    \<^verbatim>\<open>setScoreUI\<close>, \<^verbatim>\<open>setStatusUI\<close>, \<^verbatim>\<open>draw\<close> and \<^verbatim>\<open>present\<close> change
    none of the variables modelled here, and \<^verbatim>\<open>preventDefault\<close> in the key handler has
    no effect on them.
  \<^item> The loop \<^verbatim>\<open>frame\<close> turns elapsed time into calls of \<^verbatim>\<open>update(FIXED_DT)\<close>; the
    model has the single call as the event \<open>Tick\<close> and leaves the accumulator out.
  \<^item> A source loop becomes a recursive function named after it; where one source
    function is long, it is written as its successive parts, each named, and composed in
    the order of the source.
\<close>

subsection \<open>Types\<close>

datatype GameState = READY | RUNNING | GAMEOVER
datatype ObKind = CACTUS | FLYER | PIT
datatype Stage = EARLY | MID | LATE

datatype GroundVariant =
    CACTUS_SINGLE
  | CACTUS_TALL
  | CACTUS_WIDE
  | CACTUS_CLUSTER_2
  | CACTUS_CLUSTER_3
  | ROCK_LOW
  | ROCK_WIDE
  | ROCK_STACK
  | STUMP

record Ob =
  kind :: ObKind
  ob_x :: real
  ob_y :: real
  ob_w :: real
  ob_h :: real
  flightLevel :: "nat option"
  variant :: "GroundVariant option"
  seed :: "int option"
  hardness :: "real option"

record Cloud =
  cl_x :: real
  cl_y :: real
  cl_scale :: real
  cl_speedMul :: real

record Particle =
  p_x :: real
  p_y :: real
  p_vx :: real
  p_vy :: real
  p_life :: real
  p_max :: real
  p_size :: real

text \<open>A pattern step: the base gap, then the optional parameter of its kind.\<close>

datatype PatternStep =
    StepCactus real "real option"
  | StepFlyer real "nat option"
  | StepPit real "real option"

fun gapBase :: "PatternStep \<Rightarrow> real" where
  "gapBase (StepCactus gb _) = gb"
| "gapBase (StepFlyer gb _) = gb"
| "gapBase (StepPit gb _) = gb"

record Rect =
  r_x :: real
  r_y :: real
  r_w :: real
  r_h :: real

record Dino =
  d_x :: real
  d_y :: real
  d_w :: real
  d_h :: real
  d_vy :: real
  d_onGround :: bool
  d_ducking :: bool

record Game =
  viewW :: real
  viewH :: real
  best :: real
  state :: GameState
  groundY :: real
  worldSpeed :: real
  score :: real
  animTime :: real
  distSinceSpawn :: real
  nextSpawnDist :: real
  farOff :: real
  midOff :: real
  nearOff :: real
  groundOff :: real
  clouds :: "Cloud list"
  nextCloudSpawn :: real
  obs :: "Ob list"
  lastKind :: ObKind
  lastFlyLevel :: nat
  lastSpawnHardness :: real
  lastSpawnWasHard :: bool
  patternQueue :: "PatternStep list option"
  patternCooldownDist :: real
  recentPatterns :: "string list"
  guardAfterPit :: real
  guardAfterLowFlyer :: real
  jumpDown :: bool
  downDown :: bool
  jumpBuffer :: real
  coyote :: real
  jumpHold :: real
  showHitboxes :: bool
  particles :: "Particle list"
  pitFall :: bool
  dino :: Dino
  rnd :: "nat \<Rightarrow> real"
  rndPos :: nat

subsection \<open>Constants\<close>

definition BASE_VIEW_H :: real where "BASE_VIEW_H = 360"
definition MIN_VIEW_W :: real where "MIN_VIEW_W = 640"
definition MAX_VIEW_W :: real where "MAX_VIEW_W = 1280"
definition SNAP :: real where "SNAP = 16"

definition GRAVITY :: real where "GRAVITY = 1800"
definition JUMP_VELOCITY :: real where "JUMP_VELOCITY = - 640"
definition JUMP_CUT_VELOCITY :: real where "JUMP_CUT_VELOCITY = - 220"
definition COYOTE_TIME :: real where "COYOTE_TIME = 10 / 100"
definition JUMP_BUFFER_TIME :: real where "JUMP_BUFFER_TIME = 12 / 100"
definition MAX_JUMP_HOLD :: real where "MAX_JUMP_HOLD = 16 / 100"
definition HOLD_GRAVITY_MULT :: real where "HOLD_GRAVITY_MULT = 55 / 100"
definition FAST_FALL_MULT :: real where "FAST_FALL_MULT = 185 / 100"
definition HIT_PAD :: real where "HIT_PAD = 4"

definition STAND_W :: real where "STAND_W = 32"
definition STAND_H :: real where "STAND_H = 32"
definition DUCK_W :: real where "DUCK_W = 32"
definition DUCK_H :: real where "DUCK_H = 24"

definition FIXED_DT :: real where "FIXED_DT = 1 / 120"

definition PIT_MIN_W :: real where "PIT_MIN_W = 90"
definition PIT_MAX_W_HARDCAP :: real where "PIT_MAX_W_HARDCAP = 240"
definition PIT_VISUAL_DEPTH :: real where "PIT_VISUAL_DEPTH = 84"
definition PIT_SPAWN_SCORE_GATE :: real where "PIT_SPAWN_SCORE_GATE = 120"
definition PIT_BASE_CHANCE :: real where "PIT_BASE_CHANCE = 12 / 100"
definition PIT_DIFFICULTY_BONUS :: real where "PIT_DIFFICULTY_BONUS = 16 / 100"
definition PIT_FALL_LOCK_DEPTH :: real where "PIT_FALL_LOCK_DEPTH = 8"

definition PATTERN_SCORE_GATE :: real where "PATTERN_SCORE_GATE = 260"
definition SAFE_AFTER_PIT_DIST :: real where "SAFE_AFTER_PIT_DIST = 240"
definition SAFE_AFTER_LOW_FLYER_DIST :: real where "SAFE_AFTER_LOW_FLYER_DIST = 220"

definition FAR_MUL :: real where "FAR_MUL = 18 / 100"
definition MID_MUL :: real where "MID_MUL = 35 / 100"
definition NEAR_MUL :: real where "NEAR_MUL = 55 / 100"

lemmas consts_defs =
  BASE_VIEW_H_def MIN_VIEW_W_def MAX_VIEW_W_def SNAP_def GRAVITY_def JUMP_VELOCITY_def
  JUMP_CUT_VELOCITY_def COYOTE_TIME_def JUMP_BUFFER_TIME_def MAX_JUMP_HOLD_def
  HOLD_GRAVITY_MULT_def FAST_FALL_MULT_def HIT_PAD_def STAND_W_def STAND_H_def DUCK_W_def
  DUCK_H_def FIXED_DT_def PIT_MIN_W_def PIT_MAX_W_HARDCAP_def PIT_VISUAL_DEPTH_def
  PIT_SPAWN_SCORE_GATE_def PIT_BASE_CHANCE_def PIT_DIFFICULTY_BONUS_def
  PIT_FALL_LOCK_DEPTH_def PATTERN_SCORE_GATE_def SAFE_AFTER_PIT_DIST_def
  SAFE_AFTER_LOW_FLYER_DIST_def FAR_MUL_def MID_MUL_def NEAR_MUL_def

subsection \<open>Utilities\<close>

definition clamp :: "real \<Rightarrow> real \<Rightarrow> real \<Rightarrow> real" where
  "clamp n a b = max a (min b n)"

text \<open>\<^verbatim>\<open>Math.round\<close> rounds a half upwards.\<close>

definition js_round :: "real \<Rightarrow> real" where
  "js_round n = of_int \<lfloor>n + 1 / 2\<rfloor>"

definition snapTo :: "real \<Rightarrow> real \<Rightarrow> real" where
  "snapTo n step = js_round (n / step) * step"

text \<open>\<^verbatim>\<open>Math.random()\<close>: the next element of the stream.\<close>

definition random :: "Game \<Rightarrow> real \<times> Game" where
  "random g = (rnd g (rndPos g), g\<lparr>rndPos := Suc (rndPos g)\<rparr>)"

definition rand :: "real \<Rightarrow> real \<Rightarrow> Game \<Rightarrow> real \<times> Game" where
  "rand mn mx g = (let (u, g1) = random g in (mn + u * (mx - mn), g1))"

definition speedFactor :: "Game \<Rightarrow> real" where
  "speedFactor g = clamp (worldSpeed g / 260) 1 (235 / 100)"

definition scaledGap :: "real \<Rightarrow> Game \<Rightarrow> real" where
  "scaledGap base g = base * speedFactor g"

definition difficulty01 :: "Game \<Rightarrow> real" where
  "difficulty01 g = clamp ((worldSpeed g - 260) / 700) 0 1"

definition stage :: "Game \<Rightarrow> Stage" where
  "stage g = (if score g < 600 then EARLY else if score g < 1600 then MID else LATE)"

definition jitter :: "real \<Rightarrow> real \<Rightarrow> Game \<Rightarrow> real \<times> Game" where
  "jitter n amount g = (let (j, g1) = rand (- amount) amount g in (n + j, g1))"


text \<open>
  The short-circuit \<^verbatim>\<open>c && Math.random() < p\<close>: the stream is read only when
  \<open>c\<close> holds.
\<close>

definition andRandomLt :: "bool \<Rightarrow> real \<Rightarrow> Game \<Rightarrow> bool \<times> Game" where
  "andRandomLt c p g = (if c then (let (u, g1) = random g in (u < p, g1)) else (False, g))"

text \<open>
  \<^verbatim>\<open>n | 0\<close>: truncation towards zero, then reduction to a signed 32-bit integer.
\<close>

definition js_trunc :: "real \<Rightarrow> int" where
  "js_trunc n = (if 0 \<le> n then \<lfloor>n\<rfloor> else \<lceil>n\<rceil>)"

definition toInt32 :: "real \<Rightarrow> int" where
  "toInt32 n = sint (word_of_int (js_trunc n) :: 32 word)"

text \<open>
  \<^verbatim>\<open>mulberry32(seed)\<close> returns a closure over the counter \<^verbatim>\<open>t\<close>, initially
  \<^verbatim>\<open>seed >>> 0\<close>. \<open>mulberry32\<close> is that initial counter and \<open>mulberry32_next\<close> one
  call of the closure: the value returned and the new counter. The counter is a number
  that grows by \<^verbatim>\<open>0x6d2b79f5\<close> per call (an \<open>int\<close> here); the bit operations and
  \<^verbatim>\<open>Math.imul\<close> read it modulo \<open>2 ^ 32\<close>.
\<close>

definition mulberry32 :: "int \<Rightarrow> int" where
  "mulberry32 sd = uint (word_of_int sd :: 32 word)"

definition mulberry32_next :: "int \<Rightarrow> real \<times> int" where
  "mulberry32_next t0 =
     (let t = t0 + 0x6d2b79f5;
          tw = (word_of_int t :: 32 word);
          r = (tw XOR drop_bit 15 tw) * (1 OR tw);
          r = r XOR (r + (r XOR drop_bit 7 r) * (61 OR r))
      in (real (unat (r XOR drop_bit 14 r)) / 4294967296, t))"

definition seedInt :: "Game \<Rightarrow> int \<times> Game" where
  "seedInt g = (let (u, g1) = random g in (toInt32 (u * 0x7fffffff), g1))"

subsection \<open>Hitboxes and pits\<close>

definition dinoHitbox :: "Game \<Rightarrow> Rect" where
  "dinoHitbox g =
     \<lparr> r_x = d_x (dino g) + HIT_PAD,
       r_y = d_y (dino g) + HIT_PAD,
       r_w = d_w (dino g) - HIT_PAD * 2,
       r_h = d_h (dino g) - HIT_PAD * 2 \<rparr>"

definition obHitbox :: "Ob \<Rightarrow> Rect" where
  "obHitbox ob =
     (let pad = (if kind ob = FLYER then 6 else HIT_PAD)
      in \<lparr> r_x = ob_x ob + pad, r_y = ob_y ob + pad,
           r_w = ob_w ob - pad * 2, r_h = ob_h ob - pad * 2 \<rparr>)"

definition aabb :: "Rect \<Rightarrow> Rect \<Rightarrow> bool" where
  "aabb a b =
     (\<not> (r_x a + r_w a < r_x b \<or> r_x a > r_x b + r_w b \<or>
         r_y a + r_h a < r_y b \<or> r_y a > r_y b + r_h b))"

text \<open>The loop of \<^verbatim>\<open>isOverPit\<close> over the obstacles.\<close>

fun overPitLoop :: "real \<Rightarrow> real \<Rightarrow> Ob list \<Rightarrow> bool" where
  "overPitLoop footA footB [] = False"
| "overPitLoop footA footB (ob # rest) =
     (if kind ob \<noteq> PIT then overPitLoop footA footB rest
      else (let a = ob_x ob + 4; b = ob_x ob + ob_w ob - 4
            in if footB > a \<and> footA < b then True else overPitLoop footA footB rest))"

definition isOverPit :: "Game \<Rightarrow> bool" where
  "isOverPit g =
     (let footA = d_x (dino g) + d_w (dino g) * (28 / 100);
          footB = d_x (dino g) + d_w (dino g) * (78 / 100)
      in overPitLoop footA footB (obs g))"

subsection \<open>Spawn helpers\<close>

definition maxGroundWidthCap :: "Game \<Rightarrow> real" where
  "maxGroundWidthCap g =
     (let st = stage g;
          base = (if st = EARLY then 115 else if st = MID then 155 else 190);
          extra = clamp ((worldSpeed g - 260) * (8 / 100)) 0 (if st = LATE then 70 else 55);
          cap = base + extra;
          cap = (if guardAfterPit g > 0 then cap - 35 else cap);
          cap = (if guardAfterLowFlyer g > 0 \<and> st \<noteq> LATE then cap - 20 else cap)
      in clamp cap 90 250)"

definition maxGroundHeightCap :: "Game \<Rightarrow> real" where
  "maxGroundHeightCap g =
     (let st = stage g in if st = EARLY then 72 else if st = MID then 82 else 90)"

definition computeGroundHardness :: "real \<Rightarrow> real \<Rightarrow> GroundVariant \<Rightarrow> Game \<Rightarrow> real" where
  "computeGroundHardness w h v g =
     (let wCap = maxGroundWidthCap g;
          hCap = maxGroundHeightCap g;
          wN = clamp (w / wCap) 0 (125 / 100);
          hN = clamp (h / hCap) 0 (125 / 100);
          bonus = 0;
          bonus = (if v = CACTUS_TALL then bonus + 10 / 100 else bonus);
          bonus = (if v = CACTUS_WIDE then bonus + 18 / 100 else bonus);
          bonus = (if v = CACTUS_CLUSTER_2 then bonus + 28 / 100 else bonus);
          bonus = (if v = CACTUS_CLUSTER_3 then bonus + 38 / 100 else bonus);
          bonus = (if v = ROCK_WIDE then bonus + 16 / 100 else bonus);
          bonus = (if v = ROCK_STACK then bonus + 22 / 100 else bonus);
          bonus = (if v = STUMP then bonus + 14 / 100 else bonus);
          hard = 35 / 100 + wN * (55 / 100) + hN * (35 / 100) + bonus
      in clamp hard (30 / 100) (160 / 100))"

text \<open>
  The weighted draw shared by \<^verbatim>\<open>pickGroundVariant\<close> and \<^verbatim>\<open>pickPattern\<close>:
  \<^verbatim>\<open>for (const p of pool) { r -= weight(p); if (r <= 0) return p; }\<close>, with the value
  used when the loop runs to its end.
\<close>

fun weightedLoop :: "('a \<Rightarrow> real) \<Rightarrow> real \<Rightarrow> 'a \<Rightarrow> 'a list \<Rightarrow> 'a" where
  "weightedLoop weight r dflt [] = dflt"
| "weightedLoop weight r dflt (p # pool) =
     (let r = r - weight p in if r \<le> 0 then p else weightedLoop weight r dflt pool)"

definition pickGroundVariant :: "real \<Rightarrow> Game \<Rightarrow> GroundVariant \<times> Game" where
  "pickGroundVariant tallBias g =
     (let st = stage g;
          d = difficulty01 g;
          afterPit = (guardAfterPit g > 0 \<or> lastKind g = PIT);
          afterLowFly = (guardAfterLowFlyer g > 0);
          wSingle = (if st = EARLY then 46 / 10 else if st = MID then 32 / 10 else 24 / 10);
          wTall = (if st = EARLY then 22 / 10 else if st = MID then 20 / 10 else 16 / 10);
          wWide = (if st = EARLY then 5 / 10 else if st = MID then 16 / 10 else 22 / 10);
          wStump = (if st = EARLY then 9 / 10 else if st = MID then 10 / 10 else 11 / 10);
          wCl2 = (if st = EARLY then 25 / 100 else if st = MID then 11 / 10 else 18 / 10);
          wCl3 = (if st = EARLY then 0 else if st = MID then 55 / 100 else 135 / 100);
          wRockLow = (if st = EARLY then 14 / 10 else if st = MID then 12 / 10 else 9 / 10);
          wRockWide = (if st = EARLY then 3 / 10 else if st = MID then 9 / 10 else 13 / 10);
          wRockStack = (if st = EARLY then 1 / 10 else if st = MID then 55 / 100 else 12 / 10);
          tb = clamp tallBias 0 1;
          wTall = wTall * (85 / 100 + tb * (55 / 100));
          wCl2 = wCl2 * (85 / 100 + tb * (45 / 100));
          wCl3 = wCl3 * (90 / 100 + tb * (50 / 100));
          boost = 1 + d * (if st = LATE then 55 / 100 else 35 / 100);
          wWide = wWide * boost;
          wCl2 = wCl2 * boost;
          wCl3 = wCl3 * boost;
          wRockWide = wRockWide * (boost * (9 / 10));
          wRockStack = wRockStack * (boost * (9 / 10));
          wWide = (if afterPit then wWide * (35 / 100) else wWide);
          wCl2 = (if afterPit then wCl2 * (35 / 100) else wCl2);
          wCl3 = (if afterPit then wCl3 * (25 / 100) else wCl3);
          wRockWide = (if afterPit then wRockWide * (40 / 100) else wRockWide);
          wRockStack = (if afterPit then wRockStack * (35 / 100) else wRockStack);
          softer = (afterLowFly \<and> st \<noteq> LATE);
          wWide = (if softer then wWide * (70 / 100) else wWide);
          wCl2 = (if softer then wCl2 * (75 / 100) else wCl2);
          wCl3 = (if softer then wCl3 * (60 / 100) else wCl3);
          wRockWide = (if softer then wRockWide * (75 / 100) else wRockWide);
          poolAll =
            [(CACTUS_SINGLE, wSingle), (CACTUS_TALL, wTall), (CACTUS_WIDE, wWide),
             (CACTUS_CLUSTER_2, wCl2), (CACTUS_CLUSTER_3, wCl3), (ROCK_LOW, wRockLow),
             (ROCK_WIDE, wRockWide), (ROCK_STACK, wRockStack), (STUMP, wStump)];
          pool = filter (\<lambda>p. snd p > 1 / 1000) poolAll;
          total = foldl (\<lambda>total p. total + snd p) 0 pool;
          (u, g1) = random g;
          r = u * total
      in (fst (weightedLoop snd r (CACTUS_SINGLE, 0) pool), g1))"

text \<open>
  \<^verbatim>\<open>makeGroundDims\<close>: every branch calls \<^verbatim>\<open>rr\<close> twice, for the width and then for
  the height, so the two values of the seeded generator are drawn first.
\<close>

definition makeGroundDims :: "GroundVariant \<Rightarrow> int \<Rightarrow> Game \<Rightarrow> real \<times> real" where
  "makeGroundDims v s g =
     (let st = stage g;
          d = difficulty01 g;
          (u1, t1) = mulberry32_next (mulberry32 s);
          (u2, t2) = mulberry32_next t1;
          rr1 = (\<lambda>a b. a + u1 * (b - a));
          rr2 = (\<lambda>a b. a + u2 * (b - a));
          wCap = maxGroundWidthCap g;
          hCap = maxGroundHeightCap g;
          (w, h) =
            (case v of
               CACTUS_SINGLE \<Rightarrow> (rr1 22 34, rr2 34 (if st = EARLY then 56 else 62))
             | CACTUS_TALL \<Rightarrow> (rr1 14 22, rr2 58 hCap)
             | CACTUS_WIDE \<Rightarrow> (rr1 40 (if st = EARLY then 62 else 78), rr2 30 50)
             | CACTUS_CLUSTER_2 \<Rightarrow>
                 (rr1 50 (if st = EARLY then 74 else 92), rr2 40 (if st = EARLY then 62 else 74))
             | CACTUS_CLUSTER_3 \<Rightarrow>
                 (rr1 68 (if st = MID then 100 else 118), rr2 42 (if st = MID then 72 else 80))
             | ROCK_LOW \<Rightarrow> (rr1 26 56, rr2 16 28)
             | ROCK_WIDE \<Rightarrow> (rr1 56 (if st = MID then 98 else 120), rr2 16 30)
             | ROCK_STACK \<Rightarrow> (rr1 34 66, rr2 28 48)
             | STUMP \<Rightarrow> (rr1 34 58, rr2 34 54));
          w = (if st = LATE then w * (1 + d * (8 / 100)) else w);
          h = (if st = LATE then h * (1 + d * (6 / 100)) else h)
      in (clamp w 14 wCap, clamp h 14 hCap))"

definition spawnGroundObstacle :: "real \<Rightarrow> Game \<Rightarrow> Game" where
  "spawnGroundObstacle tallBias g =
     (let (sd, g1) = seedInt g;
          (v, g2) = pickGroundVariant tallBias g1;
          (w, h) = makeGroundDims v sd g2;
          hardn = computeGroundHardness w h v g2
      in g2\<lparr> obs := obs g2 @
                [\<lparr> kind = CACTUS, ob_x = viewW g2 + 40, ob_y = groundY g2 - h, ob_w = w,
                   ob_h = h, flightLevel = None, variant = Some v, seed = Some sd,
                   hardness = Some hardn \<rparr>],
              lastKind := CACTUS,
              lastSpawnHardness := hardn,
              lastSpawnWasHard := (hardn \<ge> 1) \<rparr>)"

definition pickFlyLevel :: "Game \<Rightarrow> nat \<times> Game" where
  "pickFlyLevel g =
     (let d = difficulty01 g;
          st = stage g;
          allowLow = ((st = MID \<and> score g > 650) \<or>
                      (st = LATE \<and> (score g > 900 \<or> d > 5 / 10)));
          (roll, g1) = random g;
          level =
            (if st = EARLY then (if roll < 7 / 10 then 1 else 2)
             else if st = MID then
               (if allowLow \<and> roll < 18 / 100 then 0 else if roll < 68 / 100 then 1 else 2)
             else
               (if allowLow \<and> roll < 28 / 100 then 0 else if roll < 62 / 100 then 1 else 2));
          (change, g2) = andRandomLt (level = lastFlyLevel g1) (7 / 10) g1;
          (level, g3) =
            (if change then
               (let (level, g3) =
                      (if level = 1 then
                         (let (u, g3) = random g2
                          in ((if u < 5 / 10 then 2 else if allowLow then 0 else 2), g3))
                       else (1, g2))
                in ((if \<not> allowLow \<and> level = 0 then 1 else level), g3))
             else (level, g2));
          level = (if guardAfterPit g3 > 0 \<and> level = 0 then 1 else level)
      in (level, g3))"

definition spawnFlyer :: "nat option \<Rightarrow> Game \<Rightarrow> Game" where
  "spawnFlyer level g =
     (let w = 48;
          h = 24;
          (useLevel, g1) = (case level of Some l \<Rightarrow> (l, g) | None \<Rightarrow> pickFlyLevel g);
          useLevel = (if guardAfterPit g1 > 0 \<and> useLevel = 0 then 1 else useLevel);
          lowBottom = groundY g1 - (DUCK_H + 8);
          midBottom = groundY g1 - (DUCK_H + 26);
          highBottom = groundY g1 - (STAND_H + 44);
          bottom = (if useLevel = 0 then lowBottom
                    else if useLevel = 1 then midBottom else highBottom);
          hardn = (if useLevel = 0 then 110 / 100 else if useLevel = 1 then 75 / 100 else 60 / 100);
          g2 = g1\<lparr> obs := obs g1 @
                  [\<lparr> kind = FLYER, ob_x = viewW g1 + 40, ob_y = bottom - h, ob_w = w,
                     ob_h = h, flightLevel = Some useLevel, variant = None, seed = None,
                     hardness = Some hardn \<rparr>],
                lastKind := FLYER,
                lastFlyLevel := useLevel,
                lastSpawnHardness := hardn,
                lastSpawnWasHard := (hardn \<ge> 1) \<rparr>
      in if useLevel = 0 then g2\<lparr>guardAfterLowFlyer := SAFE_AFTER_LOW_FLYER_DIST\<rparr> else g2)"

definition computeSafePitWidth :: "Game \<Rightarrow> real" where
  "computeSafePitWidth g =
     (let clearable = worldSpeed g * (62 / 100) - 45
      in clamp clearable PIT_MIN_W PIT_MAX_W_HARDCAP)"

definition spawnPit :: "real option \<Rightarrow> Game \<Rightarrow> Game" where
  "spawnPit width g =
     (let maxW = computeSafePitWidth g;
          (w, g1) = (case width of Some wd \<Rightarrow> (wd, g) | None \<Rightarrow> rand PIT_MIN_W maxW g)
      in g1\<lparr> obs := obs g1 @
                [\<lparr> kind = PIT, ob_x = viewW g1 + 40, ob_y = groundY g1, ob_w = w,
                   ob_h = PIT_VISUAL_DEPTH, flightLevel = None, variant = None, seed = None,
                   hardness = Some (135 / 100) \<rparr>],
              lastKind := PIT,
              lastSpawnHardness := 135 / 100,
              lastSpawnWasHard := True,
              guardAfterPit := SAFE_AFTER_PIT_DIST \<rparr>)"

definition computeNextSpawnDist :: "ObKind \<Rightarrow> real \<Rightarrow> Game \<Rightarrow> real \<times> Game" where
  "computeNextSpawnDist k hardn g =
     (let sf = speedFactor g;
          st = stage g;
          stageMul = (if st = EARLY then 118 / 100 else if st = MID then 1 else 90 / 100);
          mn = 240 * sf * stageMul;
          mx = 440 * sf * stageMul;
          mn = (if k = FLYER then mn + 70 * sf else mn);
          mx = (if k = FLYER then mx + 90 * sf else mx);
          mn = (if k = PIT then mn + 160 * sf else mn);
          mx = (if k = PIT then mx + 240 * sf else mx);
          mn = mn + hardn * 90 * sf;
          mx = mx + hardn * 130 * sf;
          mn = (if guardAfterPit g > 0 then mn + 80 * sf else mn);
          mn = (if guardAfterLowFlyer g > 0 then mn + 40 * sf else mn)
      in rand mn mx g)"

subsection \<open>Patterns\<close>

text \<open>
  \<^verbatim>\<open>unshift\<close> the identifier, then \<^verbatim>\<open>pop\<close> while more than three remain: the first
  three are kept.
\<close>

definition pushRecentPattern :: "string \<Rightarrow> Game \<Rightarrow> Game" where
  "pushRecentPattern pid g = g\<lparr>recentPatterns := take 3 (pid # recentPatterns g)\<rparr>"

definition recentlyUsed :: "string \<Rightarrow> Game \<Rightarrow> bool" where
  "recentlyUsed pid g = (pid \<in> set (recentPatterns g))"

definition canStartPattern :: "Game \<Rightarrow> bool \<times> Game" where
  "canStartPattern g =
     (if score g < PATTERN_SCORE_GATE then (False, g)
      else if patternQueue g \<noteq> None then (False, g)
      else if patternCooldownDist g > 0 then (False, g)
      else if lastKind g = PIT then (False, g)
      else
        (let st = stage g;
             d = difficulty01 g;
             base = (if st = EARLY then 10 / 100 else if st = MID then 20 / 100 else 34 / 100);
             chance = clamp (base + d * (12 / 100)) 0 (55 / 100);
             (u, g1) = random g
         in (u < chance, g1)))"

definition setPatternCooldown :: "Game \<Rightarrow> Game" where
  "setPatternCooldown g =
     (let st = stage g;
          base = (if st = EARLY then 540 else if st = MID then 430 else 320);
          (extra, g1) = rand 0 (scaledGap 180 g) g
      in g1\<lparr>patternCooldownDist := scaledGap base g + extra\<rparr>)"

definition gapBaseFor :: "Stage \<Rightarrow> real \<Rightarrow> Game \<Rightarrow> real" where
  "gapBaseFor st base g =
     (let d = difficulty01 g;
          tighten = (if st = EARLY then 0 else if st = MID then 10 / 100 else 18 / 100);
          out = base * (1 - tighten) - d * (if st = LATE then 35 else 18)
      in max 160 out)"

text \<open>
  \<^verbatim>\<open>set[(Math.random() * set.length) | 0]\<close> (the array is \<open>levels\<close> here); an index outside the array reads
  \<^verbatim>\<open>undefined\<close>, which is \<open>None\<close> for the optional level of a step.
\<close>

definition rLevel :: "nat list \<Rightarrow> Game \<Rightarrow> nat option \<times> Game" where
  "rLevel levels g =
     (let (u, g1) = random g;
          i = toInt32 (u * real (length levels))
      in ((if 0 \<le> i \<and> nat i < length levels then Some (levels ! nat i) else None), g1))"

record Pattern =
  pat_id :: string
  wEarly :: real
  wMid :: real
  wLate :: real
  build :: "Game \<Rightarrow> PatternStep list \<times> Game"

text \<open>The local helper \<^verbatim>\<open>g\<close> of \<^verbatim>\<open>buildPatterns\<close>: a base gap for the stage, jittered.\<close>

definition gapJ :: "Stage \<Rightarrow> real \<Rightarrow> real \<Rightarrow> Game \<Rightarrow> real \<times> Game" where
  "gapJ st base jitterAmt g = jitter (gapBaseFor st base g) jitterAmt g"

definition buildPatterns :: "Game \<Rightarrow> Pattern list" where
  "buildPatterns g0 =
     (let st = stage g0;
          earlyLevels = [1, 2];
          midLevels = [1, 2, 1, 2, 0];
          lateLevels = [0, 1, 2, 1, 0, 2];
          levels = (if st = EARLY then earlyLevels else if st = MID then midLevels else lateLevels)
      in
       [\<lparr> pat_id = ''P1_DOUBLE_FLYERS'', wEarly = 16 / 10, wMid = 19 / 10, wLate = 20 / 10,
          build = (\<lambda>g.
            let (a, g1) = rLevel levels g;
                (b, g2) = rLevel levels g1;
                (again, g3) = andRandomLt (b = a) (7 / 10) g2;
                (b, g4) = (if again then rLevel levels g3 else (b, g3));
                (gp, g5) = gapJ st 260 28 g4
            in ([StepFlyer 0 a, StepFlyer gp b], g5)) \<rparr>,
        \<lparr> pat_id = ''P2_WAVE_HMH'', wEarly = 12 / 10, wMid = 16 / 10, wLate = 18 / 10,
          build = (\<lambda>g.
            let (u, g1) = random g;
                seq = (if u < 5 / 10 then [2, 1, 2] else [2, 1, 1]);
                (gp1, g2) = gapJ st 240 26 g1;
                (gp2, g3) = gapJ st 240 26 g2
            in ([StepFlyer 0 (Some (seq ! 0)), StepFlyer gp1 (Some (seq ! 1)),
                 StepFlyer gp2 (Some (seq ! 2))], g3)) \<rparr>,
        \<lparr> pat_id = ''P3_BAIT_HIGH_CACTUS'', wEarly = 11 / 10, wMid = 14 / 10, wLate = 16 / 10,
          build = (\<lambda>g.
            let (gp, g1) = gapJ st 240 22 g
            in ([StepFlyer 0 (Some 2), StepCactus gp (Some (55 / 100))], g1)) \<rparr>,
        \<lparr> pat_id = ''P4_CACTUS_THEN_FLYER'', wEarly = 11 / 10, wMid = 14 / 10, wLate = 15 / 10,
          build = (\<lambda>g.
            let (lvl, g1) = (if st = EARLY then rLevel [1, 2] g else rLevel levels g);
                (gp, g2) = gapJ st 280 30 g1
            in ([StepCactus 0 (Some (42 / 100)), StepFlyer gp lvl], g2)) \<rparr>,
        \<lparr> pat_id = ''P5_TRIPLE_STUTTER'', wEarly = 8 / 10, wMid = 13 / 10, wLate = 17 / 10,
          build = (\<lambda>g.
            let (a, g1) = rLevel levels g;
                (b, g2) = rLevel levels g1;
                (c, g3) = rLevel levels g2;
                (again, g4) = andRandomLt (c = b) (7 / 10) g3;
                (c, g5) = (if again then rLevel levels g4 else (c, g4));
                (gp1, g6) = gapJ st 220 26 g5;
                (gp2, g7) = gapJ st 220 26 g6
            in ([StepFlyer 0 a, StepFlyer gp1 b, StepFlyer gp2 c], g7)) \<rparr>,
        \<lparr> pat_id = ''P6_MID_LOW_CHECK'', wEarly = 0, wMid = 10 / 10, wLate = 17 / 10,
          build = (\<lambda>g.
            let (gp, g1) = gapJ st 265 18 g
            in ([StepFlyer 0 (Some 1), StepFlyer gp (Some 0)], g1)) \<rparr>,
        \<lparr> pat_id = ''P7_DUCK_THEN_JUMP'', wEarly = 0, wMid = 7 / 10, wLate = 16 / 10,
          build = (\<lambda>g.
            let (gp, g1) = gapJ st 300 18 g
            in ([StepFlyer 0 (Some 0), StepCactus gp (Some (50 / 100))], g1)) \<rparr>])"

text \<open>
  The retry loop of \<^verbatim>\<open>pickPattern\<close>, from \<^verbatim>\<open>tries\<close> up to 8. The code after the loop
  picks \<^verbatim>\<open>candidates[(Math.random() * candidates.length) | 0]\<close>; reading its
  \<^verbatim>\<open>id\<close> outside the array would throw, which is the result \<open>None\<close> here (the loop
  returns at \<^verbatim>\<open>tries >= 5\<close> at the latest, so that code is never reached).
\<close>

function pickPatternLoop ::
  "Stage \<Rightarrow> Pattern list \<Rightarrow> nat \<Rightarrow> Game \<Rightarrow> (string \<times> PatternStep list) option \<times> Game" where
  "pickPatternLoop st candidates tries g =
     (let weight = (\<lambda>p. if st = EARLY then wEarly p else if st = MID then wMid p else wLate p)
      in if tries < 8 then
           (let total = foldl (\<lambda>total c. total + weight c) 0 candidates;
                (u, g1) = random g;
                r = u * total;
                chosen = weightedLoop weight r (hd candidates) candidates
            in if \<not> recentlyUsed (pat_id chosen) g1 \<or> tries \<ge> 5
               then (let (steps, g2) = build chosen g1 in (Some (pat_id chosen, steps), g2))
               else pickPatternLoop st candidates (Suc tries) g1)
         else
           (let (u, g1) = random g;
                i = toInt32 (u * real (length candidates))
            in if 0 \<le> i \<and> nat i < length candidates
               then (let fallback = candidates ! nat i;
                         (steps, g2) = build fallback g1
                     in (Some (pat_id fallback, steps), g2))
               else (None, g1)))"
  by pat_completeness auto
termination
  by (relation "measure (\<lambda>(st, candidates, tries, g). 8 - tries)") auto

definition pickPattern :: "Game \<Rightarrow> (string \<times> PatternStep list) option \<times> Game" where
  "pickPattern g =
     (let st = stage g;
          all = buildPatterns g;
          candidates =
            filter (\<lambda>p. if st = EARLY then wEarly p > 0
                        else if st = MID then wMid p > 0 else wLate p > 0) all
      in if candidates = [] then (None, g) else pickPatternLoop st candidates 0 g)"

definition startPattern :: "Game \<Rightarrow> Game" where
  "startPattern g =
     (case pickPattern g of
        (None, g1) \<Rightarrow> g1
      | (Some (pid, steps), g1) \<Rightarrow>
          setPatternCooldown (pushRecentPattern pid (g1\<lparr>patternQueue := Some steps\<rparr>)))"

subsection \<open>The spawn manager\<close>

definition spawnSingleFair :: "Game \<Rightarrow> Game" where
  "spawnSingleFair g =
     (let d = difficulty01 g;
          st = stage g;
          allowFlyers = (score g > 120 \<or> d > 15 / 100);
          allowPits = (score g \<ge> PIT_SPAWN_SCORE_GATE);
          pitChance = (if allowPits then PIT_BASE_CHANCE + d * PIT_DIFFICULTY_BONUS else 0);
          canPit = (allowPits \<and> lastKind g \<noteq> PIT);
          (roll, g1) = random g
      in if canPit \<and> roll < pitChance \<and> guardAfterPit g1 \<le> 0 then
           (let (soften, g2) =
                  andRandomLt (lastKind g1 = FLYER \<and> lastSpawnWasHard g1) (65 / 100) g1
            in if soften then spawnGroundObstacle (42 / 100) g2 else spawnPit None g2)
         else
           (let flyerChance =
                  (if allowFlyers then
                     (if st = EARLY then 12 / 100 else if st = MID then 22 / 100 else 30 / 100) +
                     d * (12 / 100)
                   else 0);
                avoidFlyer = (\<not> allowFlyers \<or> (lastKind g1 = FLYER \<and> score g1 < 600));
                avoidGroundTight = (guardAfterLowFlyer g1 > 0 \<and> score g1 < 900);
                (fly, g2) = andRandomLt (\<not> avoidFlyer) flyerChance g1
            in if fly then
                 (let (soften, g3) = andRandomLt (lastSpawnWasHard g2) (60 / 100) g2
                  in if soften then spawnGroundObstacle (40 / 100) g3 else spawnFlyer None g3)
               else
                 (let (mid, g3) = andRandomLt avoidGroundTight (30 / 100) g2
                  in if mid then spawnFlyer (Some 1) g3
                     else spawnGroundObstacle (45 / 100) g3)))"

fun spawnStep :: "PatternStep \<Rightarrow> Game \<Rightarrow> Game" where
  "spawnStep (StepCactus gb tallBias) g =
     spawnGroundObstacle (case tallBias of Some tb \<Rightarrow> tb | None \<Rightarrow> 45 / 100) g"
| "spawnStep (StepFlyer gb level) g = spawnFlyer level g"
| "spawnStep (StepPit gb width) g = spawnPit width g"

definition scheduleNextAfterSpawn :: "Game \<Rightarrow> Game" where
  "scheduleNextAfterSpawn g =
     (case patternQueue g of
        Some (next # rest) \<Rightarrow>
          g\<lparr>nextSpawnDist := scaledGap (gapBase next) g, distSinceSpawn := 0\<rparr>
      | _ \<Rightarrow>
          (let (nd, g1) = computeNextSpawnDist (lastKind g) (lastSpawnHardness g) g
           in g1\<lparr>nextSpawnDist := nd, distSinceSpawn := 0\<rparr>))"

text \<open>
  \<^verbatim>\<open>patternQueue.shift()\<close>, the step spawned, and the queue set to \<^verbatim>\<open>null\<close> once
  it is empty: the part common to both branches of \<^verbatim>\<open>spawnManagerTick\<close>.
\<close>

definition shiftAndSpawn :: "PatternStep \<Rightarrow> PatternStep list \<Rightarrow> Game \<Rightarrow> Game" where
  "shiftAndSpawn step rest g =
     (let g1 = spawnStep step (g\<lparr>patternQueue := Some rest\<rparr>);
          g2 = (if patternQueue g1 = Some [] then g1\<lparr>patternQueue := None\<rparr> else g1)
      in scheduleNextAfterSpawn g2)"

definition spawnManagerTick :: "Game \<Rightarrow> Game" where
  "spawnManagerTick g =
     (case patternQueue g of
        Some (step # rest) \<Rightarrow> shiftAndSpawn step rest g
      | _ \<Rightarrow>
          (let (can, g1) = canStartPattern g
           in if can then
                (let g2 = startPattern g1
                 in case patternQueue g2 of
                      Some (first # rest) \<Rightarrow> shiftAndSpawn first rest g2
                    | _ \<Rightarrow> scheduleNextAfterSpawn (spawnSingleFair g2))
              else scheduleNextAfterSpawn (spawnSingleFair g1)))"


subsection \<open>Reset, game over, jump and duck\<close>

text \<open>The loop of \<^verbatim>\<open>spawnDust\<close>, \<open>count\<close> particles.\<close>

fun spawnDust :: "real \<Rightarrow> real \<Rightarrow> nat \<Rightarrow> real \<Rightarrow> Game \<Rightarrow> Game" where
  "spawnDust x y 0 intensity g = g"
| "spawnDust x y (Suc n) intensity g =
     (let (l, g1) = rand (10 / 100) (22 / 100) g;
          life = l * intensity;
          (dx, g2) = rand (- 6) 6 g1;
          (dy, g3) = rand (- 4) 4 g2;
          (vx, g4) = rand (- 160) (- 60) g3;
          (vy, g5) = rand (- 90) 40 g4;
          (sz, g6) = rand 2 4 g5
      in spawnDust x y n intensity
           (g6\<lparr>particles := particles g6 @
                 [\<lparr> p_x = x + dx, p_y = y + dy, p_vx = vx * intensity, p_vy = vy * intensity,
                    p_life = life, p_max = life, p_size = sz \<rparr>]\<rparr>))"

text \<open>The loop of \<^verbatim>\<open>resetToReady\<close> that pushes the first clouds.\<close>

fun resetClouds :: "nat \<Rightarrow> Game \<Rightarrow> Game" where
  "resetClouds 0 g = g"
| "resetClouds (Suc n) g =
     (let (x, g1) = rand 20 (viewW g - 60) g;
          (y, g2) = rand 18 (max 34 (groundY g1 - 90)) g1;
          (sc, g3) = rand (85 / 100) (125 / 100) g2;
          (sm, g4) = rand (10 / 100) (26 / 100) g3
      in resetClouds n
           (g4\<lparr>clouds := clouds g4 @
                 [\<lparr> cl_x = x, cl_y = y, cl_scale = sc, cl_speedMul = sm \<rparr>]\<rparr>))"

definition resetToReady :: "Game \<Rightarrow> Game" where
  "resetToReady g =
     (let g1 = g\<lparr> state := READY,
                  worldSpeed := 260,
                  score := 0,
                  animTime := 0,
                  dino := (dino g)\<lparr> d_ducking := False, d_w := STAND_W, d_h := STAND_H,
                                    d_vy := 0, d_onGround := True,
                                    d_y := groundY g - STAND_H \<rparr>,
                  obs := [],
                  clouds := [] \<rparr>;
          g2 = resetClouds 2 g1;
          (ncs, g3) = rand (7 / 10) (14 / 10) g2
      in g3\<lparr> nextCloudSpawn := ncs,
              distSinceSpawn := 0,
              nextSpawnDist := 360,
              farOff := 0, midOff := 0, nearOff := 0, groundOff := 0,
              lastKind := CACTUS,
              lastFlyLevel := 1,
              lastSpawnHardness := 55 / 100,
              lastSpawnWasHard := False,
              patternQueue := None,
              patternCooldownDist := 0,
              recentPatterns := [],
              guardAfterPit := 0,
              guardAfterLowFlyer := 0,
              jumpBuffer := 0,
              coyote := COYOTE_TIME,
              jumpHold := 0,
              particles := [],
              pitFall := False \<rparr>)"

definition startRunFresh :: "Game \<Rightarrow> Game" where
  "startRunFresh g =
     g\<lparr> state := RUNNING,
        worldSpeed := 260,
        score := 0,
        animTime := 0,
        dino := (dino g)\<lparr> d_ducking := False, d_w := STAND_W, d_h := STAND_H,
                          d_vy := 0, d_onGround := True,
                          d_y := groundY g - STAND_H \<rparr>,
        obs := [],
        distSinceSpawn := 0,
        nextSpawnDist := 320,
        farOff := 0, midOff := 0, nearOff := 0, groundOff := 0,
        lastKind := CACTUS,
        lastFlyLevel := 1,
        lastSpawnHardness := 55 / 100,
        lastSpawnWasHard := False,
        patternQueue := None,
        patternCooldownDist := 0,
        recentPatterns := [],
        guardAfterPit := 0,
        guardAfterLowFlyer := 0,
        coyote := COYOTE_TIME,
        jumpHold := 0,
        pitFall := False \<rparr>"

definition restartRun :: "Game \<Rightarrow> Game" where
  "restartRun g = startRunFresh g"

text \<open>\<^verbatim>\<open>gameOver\<close>; the write of the best score to \<^verbatim>\<open>localStorage\<close> is not modelled.\<close>

definition gameOver :: "Game \<Rightarrow> Game" where
  "gameOver g =
     (let g1 = g\<lparr>state := GAMEOVER\<rparr>;
          s = real_of_int \<lfloor>score g1\<rfloor>
      in if s > best g1 then g1\<lparr>best := s\<rparr> else g1)"

definition queueJump :: "Game \<Rightarrow> Game" where
  "queueJump g = g\<lparr>jumpBuffer := JUMP_BUFFER_TIME\<rparr>"

definition cutJumpIfNeeded :: "Game \<Rightarrow> Game" where
  "cutJumpIfNeeded g =
     (if d_vy (dino g) < JUMP_CUT_VELOCITY
      then g\<lparr>dino := (dino g)\<lparr>d_vy := JUMP_CUT_VELOCITY\<rparr>\<rparr> else g)"

definition applyDuckVisual :: "bool \<Rightarrow> Game \<Rightarrow> Game" where
  "applyDuckVisual duck g =
     (if \<not> d_onGround (dino g) then g\<lparr>dino := (dino g)\<lparr>d_ducking := False\<rparr>\<rparr>
      else if duck \<and> \<not> d_ducking (dino g) then
        g\<lparr>dino := (dino g)\<lparr> d_ducking := True, d_w := DUCK_W, d_h := DUCK_H,
                             d_y := groundY g - DUCK_H \<rparr>\<rparr>
      else if \<not> duck \<and> d_ducking (dino g) then
        g\<lparr>dino := (dino g)\<lparr> d_ducking := False, d_w := STAND_W, d_h := STAND_H,
                             d_y := groundY g - STAND_H \<rparr>\<rparr>
      else g)"

definition performJump :: "Game \<Rightarrow> Game" where
  "performJump g =
     (let g1 = g\<lparr>dino := (dino g)\<lparr> d_ducking := False, d_w := STAND_W, d_h := STAND_H,
                                   d_y := groundY g - STAND_H, d_vy := JUMP_VELOCITY,
                                   d_onGround := False \<rparr>\<rparr>;
          g2 = spawnDust (d_x (dino g1) + 10) (groundY g1 - 8) 10 1 g1
      in g2\<lparr>jumpHold := 0, coyote := 0, jumpBuffer := 0\<rparr>)"

definition tryConsumeJump :: "Game \<Rightarrow> Game" where
  "tryConsumeJump g =
     (if jumpBuffer g \<le> 0 then g
      else
        (let g1 = (if state g = READY then startRunFresh g else g)
         in if state g1 \<noteq> RUNNING then g1
            else
              (let canJump = (d_onGround (dino g1) \<or> coyote g1 > 0)
               in if canJump then performJump g1 else g1)))"

subsection \<open>Input and resize\<close>

text \<open>
  \<^verbatim>\<open>resize\<close>, from the width and height of the canvas rectangle. The sizes of the
  canvases and the device pixel ratio concern the presentation only.
\<close>

definition resize :: "real \<Rightarrow> real \<Rightarrow> Game \<Rightarrow> Game" where
  "resize rectW rectH g =
     (let screenW = max 1 (real_of_int \<lfloor>rectW\<rfloor>);
          screenH = max 1 (real_of_int \<lfloor>rectH\<rfloor>);
          vH = BASE_VIEW_H;
          aspect = screenW / screenH;
          targetW = js_round (vH * aspect);
          snappedW = snapTo targetW SNAP;
          vW = clamp snappedW MIN_VIEW_W MAX_VIEW_W;
          gY = 272;
          baseX = clamp (js_round (vW * (14 / 100))) 86 140;
          dx = clamp baseX 70 (max 70 (vW - 140));
          d = (dino g)\<lparr>d_x := dx\<rparr>;
          d = (if d_onGround d then d\<lparr>d_y := gY - d_h d, d_vy := 0\<rparr>
               else d\<lparr>d_y := min (d_y d) (gY - d_h d)\<rparr>)
      in g\<lparr>viewH := vH, viewW := vW, groundY := gY, dino := d\<rparr>)"

definition onKeyDown :: "string \<Rightarrow> bool \<Rightarrow> Game \<Rightarrow> Game" where
  "onKeyDown code repeat g =
     (if repeat then g
      else if code = ''KeyH'' then g\<lparr>showHitboxes := \<not> showHitboxes g\<rparr>
      else if code = ''KeyR'' then
        (if state g = GAMEOVER then restartRun g else resetToReady g)
      else if code = ''KeyS'' \<or> code = ''ArrowDown'' then
        applyDuckVisual True (g\<lparr>downDown := True\<rparr>)
      else if code = ''KeyW'' \<or> code = ''ArrowUp'' \<or> code = ''Space'' then
        (let g1 = (if \<not> jumpDown g then queueJump g else g) in g1\<lparr>jumpDown := True\<rparr>)
      else g)"

definition onKeyUp :: "string \<Rightarrow> Game \<Rightarrow> Game" where
  "onKeyUp code g =
     (if code = ''KeyS'' \<or> code = ''ArrowDown'' then g\<lparr>downDown := False\<rparr>
      else if code = ''KeyW'' \<or> code = ''ArrowUp'' \<or> code = ''Space'' then
        cutJumpIfNeeded (g\<lparr>jumpDown := False\<rparr>)
      else g)"

definition onPointerDown :: "Game \<Rightarrow> Game" where
  "onPointerDown g =
     (if state g = GAMEOVER then restartRun g else (queueJump g)\<lparr>jumpDown := True\<rparr>)"

definition onPointerUp :: "Game \<Rightarrow> Game" where
  "onPointerUp g = cutJumpIfNeeded (g\<lparr>jumpDown := False\<rparr>)"


subsection \<open>The fixed-step update\<close>

text \<open>
  \<^verbatim>\<open>update(dt)\<close> is one source function; it is written here as its successive parts,
  in the order of the source, and \<open>update\<close> below composes them with the early returns
  of the source.
\<close>

text \<open>The particles age, and the expired ones at the front are removed.\<close>

definition updateParticles :: "real \<Rightarrow> Game \<Rightarrow> Game" where
  "updateParticles dt g =
     (let aged = map (\<lambda>p. p\<lparr> p_life := p_life p - dt,
                               p_x := p_x p + p_vx p * dt,
                               p_y := p_y p + p_vy p * dt,
                               p_vy := p_vy p + 260 * dt \<rparr>) (particles g)
      in g\<lparr>particles := dropWhile (\<lambda>p. p_life p \<le> 0) aged\<rparr>)"

definition updateJumpBuffer :: "real \<Rightarrow> Game \<Rightarrow> Game" where
  "updateJumpBuffer dt g =
     (if jumpBuffer g > 0 then g\<lparr>jumpBuffer := max 0 (jumpBuffer g - dt)\<rparr> else g)"

text \<open>Time, speed, score, and the distances of the cooldown and the guards.\<close>

definition updatePacing :: "real \<Rightarrow> Game \<Rightarrow> Game" where
  "updatePacing dt g =
     (let g1 = g\<lparr>animTime := animTime g + dt\<rparr>;
          g2 = g1\<lparr>worldSpeed := worldSpeed g1 + 8 * dt\<rparr>;
          g3 = g2\<lparr>score := score g2 + dt * (worldSpeed g2 / 20)\<rparr>;
          g4 = (if patternCooldownDist g3 > 0
                then g3\<lparr>patternCooldownDist :=
                          max 0 (patternCooldownDist g3 - worldSpeed g3 * dt)\<rparr>
                else g3);
          g5 = (if guardAfterPit g4 > 0
                then g4\<lparr>guardAfterPit := max 0 (guardAfterPit g4 - worldSpeed g4 * dt)\<rparr>
                else g4)
      in if guardAfterLowFlyer g5 > 0
         then g5\<lparr>guardAfterLowFlyer := max 0 (guardAfterLowFlyer g5 - worldSpeed g5 * dt)\<rparr>
         else g5)"

text \<open>The actor, in three parts: duck, coyote time and the buffered jump;\<close>

definition actorControl :: "real \<Rightarrow> Game \<Rightarrow> Game" where
  "actorControl dt g =
     (let g1 = applyDuckVisual (downDown g) g;
          g2 = (if d_onGround (dino g1) then g1\<lparr>coyote := COYOTE_TIME\<rparr>
                else g1\<lparr>coyote := max 0 (coyote g1 - dt)\<rparr>)
      in tryConsumeJump g2)"

text \<open>gravity, scaled while the jump is held or the duck key is down, and the integration;\<close>

definition actorGravity :: "real \<Rightarrow> Game \<Rightarrow> Game" where
  "actorGravity dt g =
     (let grav = GRAVITY;
          goingUp = (d_vy (dino g) < 0);
          hold = (\<not> d_onGround (dino g) \<and> jumpDown g \<and> goingUp \<and> jumpHold g < MAX_JUMP_HOLD);
          grav = (if hold then grav * HOLD_GRAVITY_MULT else grav);
          jh = (if hold then jumpHold g + dt else jumpHold g);
          grav = (if \<not> d_onGround (dino g) \<and> downDown g then grav * FAST_FALL_MULT else grav);
          vy = d_vy (dino g) + grav * dt
      in g\<lparr>jumpHold := jh, dino := (dino g)\<lparr>d_vy := vy, d_y := d_y (dino g) + vy * dt\<rparr>\<rparr>)"

text \<open>the lock of a fall into a pit, and the contact with the ground.\<close>

definition actorGround :: "Game \<Rightarrow> Game" where
  "actorGround g =
     (let groundTop = groundY g - d_h (dino g);
          overPit = isOverPit g;
          g1 = (if \<not> pitFall g \<and> overPit \<and> d_y (dino g) > groundTop + PIT_FALL_LOCK_DEPTH
                then g\<lparr>pitFall := True\<rparr> else g);
          groundExistsHere = (\<not> pitFall g1 \<and> \<not> overPit)
      in if groundExistsHere \<and> d_y (dino g1) \<ge> groundTop then
           (let landed = (\<not> d_onGround (dino g1) \<and> d_vy (dino g1) > 0);
                g2 = g1\<lparr>dino := (dino g1)\<lparr>d_y := groundTop, d_vy := 0, d_onGround := True\<rparr>,
                        jumpHold := 0\<rparr>;
                g3 = applyDuckVisual (downDown g2) g2
            in if landed then spawnDust (d_x (dino g3) + 8) (groundY g3 - 8) 8 (9 / 10) g3
               else g3)
         else g1\<lparr>dino := (dino g1)\<lparr>d_onGround := False, d_ducking := False\<rparr>\<rparr>)"

definition updateActor :: "real \<Rightarrow> Game \<Rightarrow> Game" where
  "updateActor dt g = actorGround (actorGravity dt (actorControl dt g))"

text \<open>Clouds, the parallax offsets, the spawn director, and the scroll of the obstacles.\<close>

definition updateClouds :: "real \<Rightarrow> Game \<Rightarrow> Game" where
  "updateClouds dt g =
     (let g1 = g\<lparr>nextCloudSpawn := nextCloudSpawn g - dt\<rparr>;
          g2 = (if nextCloudSpawn g1 \<le> 0 then
                  (let (dx, ga) = rand 20 120 g1;
                       (y, gb) = rand 18 (max 34 (groundY ga - 110)) ga;
                       (sc, gc) = rand (75 / 100) (135 / 100) gb;
                       (sm, gd) = rand (10 / 100) (28 / 100) gc;
                       ge = gd\<lparr>clouds := clouds gd @
                               [\<lparr> cl_x = viewW g1 + dx, cl_y = y, cl_scale = sc,
                                  cl_speedMul = sm \<rparr>]\<rparr>;
                       (ncs, gf) = rand (9 / 10) (18 / 10) ge
                   in gf\<lparr>nextCloudSpawn := ncs\<rparr>)
                else g1);
          moved = map (\<lambda>c. c\<lparr>cl_x := cl_x c - worldSpeed g2 * cl_speedMul c * dt\<rparr>) (clouds g2)
      in g2\<lparr>clouds := dropWhile (\<lambda>c. cl_x c < - 260) moved\<rparr>)"

definition updateWorld :: "real \<Rightarrow> Game \<Rightarrow> Game" where
  "updateWorld dt g =
     (let g1 = updateClouds dt g;
          g2 = g1\<lparr> farOff := farOff g1 + worldSpeed g1 * FAR_MUL * dt,
                   midOff := midOff g1 + worldSpeed g1 * MID_MUL * dt,
                   nearOff := nearOff g1 + worldSpeed g1 * NEAR_MUL * dt,
                   groundOff := groundOff g1 + worldSpeed g1 * dt \<rparr>;
          g3 = g2\<lparr>distSinceSpawn := clamp (distSinceSpawn g2 + worldSpeed g2 * dt) 0 1000000000\<rparr>;
          g4 = (if distSinceSpawn g3 \<ge> nextSpawnDist g3 then spawnManagerTick g3 else g3);
          moved = map (\<lambda>ob. ob\<lparr>ob_x := ob_x ob - worldSpeed g4 * dt\<rparr>) (obs g4)
      in g4\<lparr>obs := dropWhile (\<lambda>ob. ob_x ob + ob_w ob < - 80) moved\<rparr>)"

text \<open>The scan for a collision: pits are skipped, the first overlap ends the run.\<close>

fun collideLoop :: "Rect \<Rightarrow> Ob list \<Rightarrow> Game \<Rightarrow> Game" where
  "collideLoop dh [] g = g"
| "collideLoop dh (ob # rest) g =
     (if kind ob = PIT then collideLoop dh rest g
      else if aabb dh (obHitbox ob) then gameOver g
      else collideLoop dh rest g)"

definition update :: "real \<Rightarrow> Game \<Rightarrow> Game" where
  "update dt g =
     (let g1 = updateJumpBuffer dt (updateParticles dt g)
      in if state g1 = READY then tryConsumeJump (g1\<lparr>coyote := COYOTE_TIME\<rparr>)
         else if state g1 = GAMEOVER then g1
         else
           (let g2 = updateActor dt (updatePacing dt g1)
            in if d_y (dino g2) > viewH g2 + 120 then gameOver g2
               else
                 (let g3 = updateWorld dt g2
                  in collideLoop (dinoHitbox g3) (obs g3) g3)))"

subsection \<open>Events and reachable states\<close>

text \<open>
  The listeners registered by \<^verbatim>\<open>startGame\<close> and the tick of the loop: \<^verbatim>\<open>frame\<close> calls
  \<^verbatim>\<open>update(FIXED_DT)\<close> and nothing else that changes the state.
\<close>

datatype Event =
    KeyDown string bool
  | KeyUp string
  | PointerDown
  | PointerUp
  | Resize real real
  | Tick

fun step :: "Event \<Rightarrow> Game \<Rightarrow> Game" where
  "step (KeyDown code repeat) g = onKeyDown code repeat g"
| "step (KeyUp code) g = onKeyUp code g"
| "step PointerDown g = onPointerDown g"
| "step PointerUp g = onPointerUp g"
| "step (Resize rectW rectH) g = resize rectW rectH g"
| "step Tick g = update FIXED_DT g"

text \<open>
  The variables as \<^verbatim>\<open>startGame\<close> declares them; the best score is read from storage and
  the stream stands for \<^verbatim>\<open>Math.random\<close>.
\<close>

definition declared :: "real \<Rightarrow> (nat \<Rightarrow> real) \<Rightarrow> Game" where
  "declared bestStored randoms =
     \<lparr> viewW = MIN_VIEW_W, viewH = BASE_VIEW_H, best = bestStored, state = READY,
       groundY = 272, worldSpeed = 260, score = 0, animTime = 0, distSinceSpawn = 0,
       nextSpawnDist = 360, farOff = 0, midOff = 0, nearOff = 0, groundOff = 0,
       clouds = [], nextCloudSpawn = 7 / 10, obs = [], lastKind = CACTUS, lastFlyLevel = 1,
       lastSpawnHardness = 55 / 100, lastSpawnWasHard = False, patternQueue = None,
       patternCooldownDist = 0, recentPatterns = [], guardAfterPit = 0,
       guardAfterLowFlyer = 0, jumpDown = False, downDown = False, jumpBuffer = 0,
       coyote = 0, jumpHold = 0, showHitboxes = False, particles = [], pitFall = False,
       dino = \<lparr> d_x = 90, d_y = 0, d_w = STAND_W, d_h = STAND_H, d_vy = 0,
                d_onGround = True, d_ducking = False \<rparr>,
       rnd = randoms, rndPos = 0 \<rparr>"

text \<open>The initialisation: \<^verbatim>\<open>resize(); setStatusUI(); resetToReady();\<close>.\<close>

definition startGame :: "real \<Rightarrow> real \<Rightarrow> real \<Rightarrow> (nat \<Rightarrow> real) \<Rightarrow> Game" where
  "startGame rectW rectH bestStored randoms =
     resetToReady (resize rectW rectH (declared bestStored randoms))"

text \<open>
  The states of a running game: the initial one, for a stream of values in \<open>[0, 1)\<close> as
  \<^verbatim>\<open>Math.random\<close> returns them, and those reached from it by events.
\<close>

inductive reachable :: "Game \<Rightarrow> bool" where
  reachable_start:
    "(\<And>n. 0 \<le> randoms n \<and> randoms n < 1) \<Longrightarrow>
     reachable (startGame rectW rectH bestStored randoms)"
| reachable_step:
    "reachable g \<Longrightarrow> reachable (step e g)"

section \<open>Notions used in the statements and proofs\<close>

text \<open>
  Projections of the state, each forgetting what a group of functions may write:
  \<open>core\<close> forgets the position in the random stream, \<open>dustless\<close> also the particles,
  \<open>cloudless\<close> the position and the clouds, and \<open>inert\<close> everything that the spawn
  director writes (the obstacles, the schedule, the pattern state, the guards and the
  position in the stream). Two states with the same projection agree on every other
  variable.
\<close>

definition core :: "Game \<Rightarrow> Game" where
  "core g = g\<lparr>rndPos := 0\<rparr>"

definition dustless :: "Game \<Rightarrow> Game" where
  "dustless g = g\<lparr>rndPos := 0, particles := []\<rparr>"

definition cloudless :: "Game \<Rightarrow> Game" where
  "cloudless g = g\<lparr>rndPos := 0, clouds := []\<rparr>"

definition inert :: "Game \<Rightarrow> Game" where
  "inert g =
     g\<lparr> rndPos := 0, obs := [], lastKind := CACTUS, lastFlyLevel := 0,
        lastSpawnHardness := 0, lastSpawnWasHard := False, guardAfterPit := 0,
        guardAfterLowFlyer := 0, patternQueue := None, patternCooldownDist := 0,
        recentPatterns := [], nextSpawnDist := 0, distSinceSpawn := 0 \<rparr>"

text \<open>A low flyer: a flying obstacle at flight level 0.\<close>

definition lowFlyer :: "Ob \<Rightarrow> bool" where
  "lowFlyer ob \<longleftrightarrow> kind ob = FLYER \<and> flightLevel ob = Some 0"

text \<open>\<open>og g h\<close>: \<open>h\<close> has the obstacles and the guard after a pit of \<open>g\<close>.\<close>

definition og :: "Game \<Rightarrow> Game \<Rightarrow> bool" where
  "og g h \<longleftrightarrow> obs h = obs g \<and> guardAfterPit h = guardAfterPit g"

text \<open>
  \<open>spawnsGuarded g h\<close>: from \<open>g\<close> to \<open>h\<close> exactly one obstacle was appended; it is a pit,
  which starts the guard, or it is not a pit, the guard is as before and, while it is
  positive, the obstacle is not a low flyer.
\<close>

definition spawnsGuarded :: "Game \<Rightarrow> Game \<Rightarrow> bool" where
  "spawnsGuarded g h \<longleftrightarrow>
     (\<exists>ob. obs h = obs g @ [ob] \<and>
        ((kind ob = PIT \<and> guardAfterPit h = SAFE_AFTER_PIT_DIST) \<or>
         (kind ob \<noteq> PIT \<and> guardAfterPit h = guardAfterPit g \<and>
          (0 < guardAfterPit g \<longrightarrow> \<not> lowFlyer ob))))"

text \<open>The scroll of the obstacles by \<open>dx\<close> and the trim at the front, as the update does
  them after the spawn director has run.\<close>

definition scrollTrim :: "real \<Rightarrow> Ob list \<Rightarrow> Ob list" where
  "scrollTrim dx os =
     dropWhile (\<lambda>ob. ob_x ob + ob_w ob < - 80) (map (\<lambda>ob. ob\<lparr>ob_x := ob_x ob - dx\<rparr>) os)"

text \<open>
  \<open>spawnedIn dt g ob\<close>: the obstacle \<open>ob\<close> is new after the tick \<open>update dt g\<close>. It is among
  the obstacles after the tick and is neither an obstacle of \<open>g\<close> nor one of them moved
  by the scroll of this tick.
\<close>

definition spawnedIn :: "real \<Rightarrow> Game \<Rightarrow> Ob \<Rightarrow> bool" where
  "spawnedIn dt g ob \<longleftrightarrow>
     ob \<in> set (obs (update dt g)) \<and> ob \<notin> set (obs g) \<and>
     ob \<notin> set (map (\<lambda>old. old\<lparr>ob_x := ob_x old - worldSpeed (update dt g) * dt\<rparr>) (obs g))"

text \<open>
  A run of events from a state, and \<open>guardHeld es g\<close>: after each event of the run \<open>es\<close>
  from \<open>g\<close> the guard after a pit is positive, that is, not yet consumed.
\<close>

fun runEvents :: "Event list \<Rightarrow> Game \<Rightarrow> Game" where
  "runEvents [] g = g"
| "runEvents (e # es) g = runEvents es (step e g)"

fun guardHeld :: "Event list \<Rightarrow> Game \<Rightarrow> bool" where
  "guardHeld [] g = True"
| "guardHeld (e # es) g = (0 < guardAfterPit (step e g) \<and> guardHeld es (step e g))"

text \<open>\<open>noLowSpawn es g\<close>: no obstacle that is new after a tick of the run \<open>es\<close> from \<open>g\<close> is a
  low flyer.\<close>

fun noLowSpawn :: "Event list \<Rightarrow> Game \<Rightarrow> bool" where
  "noLowSpawn [] g = True"
| "noLowSpawn (e # es) g =
     ((e = Tick \<longrightarrow> (\<forall>ob\<in>set (obs (step e g)). spawnedIn FIXED_DT g ob \<longrightarrow> \<not> lowFlyer ob)) \<and>
      noLowSpawn es (step e g))"

text \<open>
  \<open>edgeContact a b\<close>: the rectangles \<open>a\<close> and \<open>b\<close>, of non-negative width and height, touch
  along an edge. An edge of one is at the opposite edge of the other (right at left, or
  bottom at top, in either order), and along the other axis neither lies beyond the
  other. The edges are the sums that the overlap test itself compares.
\<close>

definition edgeContact :: "Rect \<Rightarrow> Rect \<Rightarrow> bool" where
  "edgeContact a b \<longleftrightarrow>
     0 \<le> r_w a \<and> 0 \<le> r_h a \<and> 0 \<le> r_w b \<and> 0 \<le> r_h b \<and>
     (((r_x a + r_w a = r_x b \<or> r_x b + r_w b = r_x a) \<and>
       r_y a \<le> r_y b + r_h b \<and> r_y b \<le> r_y a + r_h a) \<or>
      ((r_y a + r_h a = r_y b \<or> r_y b + r_h b = r_y a) \<and>
       r_x a \<le> r_x b + r_w b \<and> r_x b \<le> r_x a + r_w a))"

text \<open>The two fatal conditions of the update: a fall below the view, or an overlap of the
  hit-rectangles of the actor and of an obstacle that is not a pit.\<close>

definition fatal :: "Game \<Rightarrow> bool" where
  "fatal h \<longleftrightarrow>
     d_y (dino h) > viewH h + 120 \<or>
     (\<exists>ob\<in>set (obs h). kind ob \<noteq> PIT \<and> aabb (dinoHitbox h) (obHitbox ob))"

text \<open>
  An invariant of the reachable states: the world speed is at least its initial value,
  the stream holds values of \<open>[0, 1)\<close>, and a READY state has the initial speed and score
  and no obstacles.
\<close>

definition runInv :: "Game \<Rightarrow> bool" where
  "runInv g \<longleftrightarrow>
     260 \<le> worldSpeed g \<and> (\<forall>n. 0 \<le> rnd g n \<and> rnd g n < 1) \<and>
     (state g = READY \<longrightarrow> worldSpeed g = 260 \<and> score g = 0 \<and> obs g = [])"

text \<open>The key codes of the jump intent.\<close>

definition jumpKey :: "string \<Rightarrow> bool" where
  "jumpKey code \<longleftrightarrow> code = ''KeyW'' \<or> code = ''ArrowUp'' \<or> code = ''Space''"

section \<open>Properties\<close>

subsection \<open>What the draws from the stream leave unchanged\<close>

lemma core_fields:
  assumes "core a = core b"
  shows "viewW a = viewW b \<and> viewH a = viewH b \<and> best a = best b \<and> state a = state b \<and>
    groundY a = groundY b \<and> worldSpeed a = worldSpeed b \<and> score a = score b \<and>
    animTime a = animTime b \<and> distSinceSpawn a = distSinceSpawn b \<and>
    nextSpawnDist a = nextSpawnDist b \<and> farOff a = farOff b \<and> midOff a = midOff b \<and>
    nearOff a = nearOff b \<and> groundOff a = groundOff b \<and> clouds a = clouds b \<and>
    nextCloudSpawn a = nextCloudSpawn b \<and> obs a = obs b \<and> lastKind a = lastKind b \<and>
    lastFlyLevel a = lastFlyLevel b \<and> lastSpawnHardness a = lastSpawnHardness b \<and>
    lastSpawnWasHard a = lastSpawnWasHard b \<and> patternQueue a = patternQueue b \<and>
    patternCooldownDist a = patternCooldownDist b \<and> recentPatterns a = recentPatterns b \<and>
    guardAfterPit a = guardAfterPit b \<and> guardAfterLowFlyer a = guardAfterLowFlyer b \<and>
    jumpDown a = jumpDown b \<and> downDown a = downDown b \<and> jumpBuffer a = jumpBuffer b \<and>
    coyote a = coyote b \<and> jumpHold a = jumpHold b \<and> showHitboxes a = showHitboxes b \<and>
    particles a = particles b \<and> pitFall a = pitFall b \<and> dino a = dino b \<and> rnd a = rnd b"
  using assms by (cases a, cases b) (simp add: core_def)

lemma core_rndPos_update [simp]: "core (rndPos_update f g) = core g"
  by (simp add: core_def)

lemma core_random [simp]: "core (snd (random g)) = core g"
  by (simp add: random_def)

lemma core_rand [simp]: "core (snd (rand mn mx g)) = core g"
  by (simp add: rand_def split_beta)

lemma core_jitter [simp]: "core (snd (jitter n amount g)) = core g"
  by (simp add: jitter_def split_beta)

lemma core_andRandomLt [simp]: "core (snd (andRandomLt c p g)) = core g"
  by (simp add: andRandomLt_def split_beta)

lemma core_seedInt [simp]: "core (snd (seedInt g)) = core g"
  by (simp add: seedInt_def split_beta)

lemma core_rLevel [simp]: "core (snd (rLevel levels g)) = core g"
  by (simp add: rLevel_def split_beta Let_def)

lemma core_gapJ [simp]: "core (snd (gapJ st base amt g)) = core g"
  by (simp add: gapJ_def)

lemma snd_pickGroundVariant: "snd (pickGroundVariant tb g) = snd (random g)"
  by (simp add: pickGroundVariant_def split_beta Let_def)

lemma core_pickGroundVariant [simp]: "core (snd (pickGroundVariant tb g)) = core g"
  by (simp add: snd_pickGroundVariant)

lemma core_pickFlyLevel [simp]: "core (snd (pickFlyLevel g)) = core g"
  by (simp add: pickFlyLevel_def split_beta Let_def if_distrib [of snd] if_distrib [of core]
      cong del: if_weak_cong split del: if_split)

lemma core_computeNextSpawnDist [simp]: "core (snd (computeNextSpawnDist k hardn g)) = core g"
  by (simp add: computeNextSpawnDist_def Let_def)

lemma core_canStartPattern [simp]: "core (snd (canStartPattern g)) = core g"
  by (simp add: canStartPattern_def split_beta Let_def)

lemma core_build:
  "p \<in> set (buildPatterns g0) \<Longrightarrow> core (snd (build p g)) = core g"
  by (auto simp add: buildPatterns_def Let_def split_beta if_distrib [of snd]
      if_distrib [of core] cong del: if_weak_cong split del: if_split)

lemma weightedLoop_mem: "weightedLoop weight r dflt pool \<in> insert dflt (set pool)"
  by (induction pool arbitrary: r) (auto simp: Let_def)

lemma weightedLoop_hd_mem:
  "pool \<noteq> [] \<Longrightarrow> weightedLoop weight r (hd pool) pool \<in> set pool"
  using weightedLoop_mem [of weight r "hd pool" pool] by auto

declare pickPatternLoop.simps [simp del]

lemma core_pickPatternLoop_aux:
  assumes build: "\<And>p h. p \<in> set candidates \<Longrightarrow> core (snd (build p h)) = core h"
    and ne: "candidates \<noteq> []"
  shows "8 - tries = k \<Longrightarrow> core (snd (pickPatternLoop st candidates tries g)) = core g"
proof (induction k arbitrary: tries g)
  case 0
  then have "\<not> tries < 8" by simp
  then show ?case
    by (subst pickPatternLoop.simps) (simp add: Let_def split_beta build)
next
  case (Suc k)
  then have lt: "tries < 8" and k: "8 - Suc tries = k" by simp_all
  note mem = weightedLoop_hd_mem [OF ne]
  show ?case
    by (subst pickPatternLoop.simps)
      (simp add: Let_def split_beta build mem lt Suc.IH [OF k] del: weightedLoop.simps)
qed

lemma core_pickPatternLoop:
  assumes "\<And>p h. p \<in> set candidates \<Longrightarrow> core (snd (build p h)) = core h"
    and "candidates \<noteq> []"
  shows "core (snd (pickPatternLoop st candidates tries g)) = core g"
  using core_pickPatternLoop_aux [OF assms refl] .

lemma core_pickPattern [simp]: "core (snd (pickPattern g)) = core g"
proof -
  define candidates where
    "candidates = filter (\<lambda>p. if stage g = EARLY then wEarly p > 0
                        else if stage g = MID then wMid p > 0 else wLate p > 0) (buildPatterns g)"
  have sub: "\<And>p h. p \<in> set candidates \<Longrightarrow> core (snd (build p h)) = core h"
    using core_build by (auto simp: candidates_def)
  have "pickPattern g =
      (if candidates = [] then (None, g) else pickPatternLoop (stage g) candidates 0 g)"
    by (simp only: pickPattern_def Let_def candidates_def)
  then show ?thesis
    using core_pickPatternLoop [OF sub] by simp
qed

lemmas random_fields [simp] = core_fields [OF core_random]
lemmas rand_fields [simp] = core_fields [OF core_rand]
lemmas jitter_fields [simp] = core_fields [OF core_jitter]
lemmas andRandomLt_fields [simp] = core_fields [OF core_andRandomLt]
lemmas seedInt_fields [simp] = core_fields [OF core_seedInt]
lemmas rLevel_fields [simp] = core_fields [OF core_rLevel]
lemmas gapJ_fields [simp] = core_fields [OF core_gapJ]
lemmas pickGroundVariant_fields [simp] = core_fields [OF core_pickGroundVariant]
lemmas pickFlyLevel_fields [simp] = core_fields [OF core_pickFlyLevel]
lemmas computeNextSpawnDist_fields [simp] = core_fields [OF core_computeNextSpawnDist]
lemmas canStartPattern_fields [simp] = core_fields [OF core_canStartPattern]
lemmas pickPattern_fields [simp] = core_fields [OF core_pickPattern]

subsection \<open>What the spawn director leaves unchanged\<close>

lemma inert_fields:
  assumes "inert a = inert b"
  shows "viewW a = viewW b \<and> viewH a = viewH b \<and> best a = best b \<and> state a = state b \<and>
    groundY a = groundY b \<and> worldSpeed a = worldSpeed b \<and> score a = score b \<and>
    animTime a = animTime b \<and> farOff a = farOff b \<and> midOff a = midOff b \<and>
    nearOff a = nearOff b \<and> groundOff a = groundOff b \<and> clouds a = clouds b \<and>
    nextCloudSpawn a = nextCloudSpawn b \<and>
    jumpDown a = jumpDown b \<and> downDown a = downDown b \<and> jumpBuffer a = jumpBuffer b \<and>
    coyote a = coyote b \<and> jumpHold a = jumpHold b \<and> showHitboxes a = showHitboxes b \<and>
    particles a = particles b \<and> pitFall a = pitFall b \<and> dino a = dino b \<and> rnd a = rnd b"
  using assms by (cases a, cases b) (simp add: inert_def)

lemma inert_updates [simp]:
  "inert (rndPos_update f0 g) = inert g"
  "inert (obs_update f1 g) = inert g"
  "inert (lastKind_update f2 g) = inert g"
  "inert (lastFlyLevel_update f3 g) = inert g"
  "inert (lastSpawnHardness_update f4 g) = inert g"
  "inert (lastSpawnWasHard_update f5 g) = inert g"
  "inert (guardAfterPit_update f6 g) = inert g"
  "inert (guardAfterLowFlyer_update f7 g) = inert g"
  "inert (patternQueue_update f8 g) = inert g"
  "inert (patternCooldownDist_update f9 g) = inert g"
  "inert (recentPatterns_update f10 g) = inert g"
  "inert (nextSpawnDist_update f11 g) = inert g"
  "inert (distSinceSpawn_update f12 g) = inert g"
  by (simp_all add: inert_def)

lemma inert_core: "core a = core b \<Longrightarrow> inert a = inert b"
proof -
  assume "core a = core b"
  moreover have "inert a = inert (core a)" "inert b = inert (core b)"
    by (simp_all add: core_def)
  ultimately show ?thesis by simp
qed

lemmas inert_draws [simp] =
  inert_core [OF core_random] inert_core [OF core_rand] inert_core [OF core_jitter]
  inert_core [OF core_andRandomLt] inert_core [OF core_seedInt] inert_core [OF core_rLevel]
  inert_core [OF core_gapJ] inert_core [OF core_pickGroundVariant]
  inert_core [OF core_pickFlyLevel] inert_core [OF core_computeNextSpawnDist]
  inert_core [OF core_canStartPattern] inert_core [OF core_pickPattern]

lemma inert_spawnGroundObstacle [simp]: "inert (spawnGroundObstacle tb g) = inert g"
  by (simp add: spawnGroundObstacle_def split_beta Let_def)

lemma inert_spawnFlyer [simp]: "inert (spawnFlyer level g) = inert g"
  by (cases level)
    (simp_all add: spawnFlyer_def split_beta Let_def if_distrib [of inert]
      cong del: if_weak_cong split del: if_split)

lemma inert_spawnPit [simp]: "inert (spawnPit width g) = inert g"
  by (simp add: spawnPit_def split_beta Let_def split: option.splits)

lemma inert_spawnStep [simp]: "inert (spawnStep s g) = inert g"
  by (cases s) simp_all

lemma inert_pushRecentPattern [simp]: "inert (pushRecentPattern pid g) = inert g"
  by (simp add: pushRecentPattern_def)

lemma inert_setPatternCooldown [simp]: "inert (setPatternCooldown g) = inert g"
  by (simp add: setPatternCooldown_def split_beta Let_def)

lemma inert_startPattern [simp]: "inert (startPattern g) = inert g"
proof -
  have "inert (snd (pickPattern g)) = inert g" by simp
  then show ?thesis
    by (cases "pickPattern g") (auto simp add: startPattern_def split: option.splits)
qed

lemma inert_spawnSingleFair [simp]: "inert (spawnSingleFair g) = inert g"
  by (simp add: spawnSingleFair_def split_beta Let_def if_distrib [of inert]
      cong del: if_weak_cong split del: if_split)

lemma inert_scheduleNextAfterSpawn [simp]: "inert (scheduleNextAfterSpawn g) = inert g"
  by (simp add: scheduleNextAfterSpawn_def split_beta Let_def split: option.splits list.splits)

lemma inert_shiftAndSpawn [simp]: "inert (shiftAndSpawn s rest g) = inert g"
  by (simp add: shiftAndSpawn_def Let_def)

lemma inert_spawnManagerTick [simp]: "inert (spawnManagerTick g) = inert g"
  by (simp add: spawnManagerTick_def split_beta Let_def split: option.splits list.splits)

lemmas spawnManagerTick_fields [simp] = inert_fields [OF inert_spawnManagerTick]

subsection \<open>Obstacles and the guard after a pit through the spawn director\<close>

lemma og_refl [simp]: "og g g"
  by (simp add: og_def)

lemma og_core: "core h = core g \<Longrightarrow> og g h"
  using core_fields [of h g] by (simp add: og_def)

lemma og_draws [simp]:
  "og g h \<Longrightarrow> og g (snd (random h))"
  "og g h \<Longrightarrow> og g (snd (andRandomLt c p h))"
  "og g h \<Longrightarrow> og g (snd (canStartPattern h))"
  "og g h \<Longrightarrow> og g (snd (pickPattern h))"
  by (simp_all add: og_def)

lemma og_patternQueue [simp]: "og g h \<Longrightarrow> og g (patternQueue_update f h)"
  by (simp add: og_def)

lemma scheduleNextAfterSpawn_og_fields [simp]:
  "obs (scheduleNextAfterSpawn h) = obs h"
  "guardAfterPit (scheduleNextAfterSpawn h) = guardAfterPit h"
  by (simp_all add: scheduleNextAfterSpawn_def split_beta Let_def
      split: option.splits list.splits)

lemma og_scheduleNextAfterSpawn [simp]: "og g h \<Longrightarrow> og g (scheduleNextAfterSpawn h)"
  by (simp add: og_def)

lemma og_startPattern [simp]: "og g h \<Longrightarrow> og g (startPattern h)"
proof -
  assume a: "og g h"
  have "og g (snd (pickPattern h))" using a by simp
  then show ?thesis
    by (cases "pickPattern h")
      (auto simp add: startPattern_def og_def pushRecentPattern_def setPatternCooldown_def
        split_beta Let_def split: option.splits)
qed

lemma spawnsGuarded_post: "spawnsGuarded g h \<Longrightarrow> og h k \<Longrightarrow> spawnsGuarded g k"
  by (auto simp add: spawnsGuarded_def og_def)

lemma sg_ground [simp]: "og g h \<Longrightarrow> spawnsGuarded g (spawnGroundObstacle tb h)"
  by (simp add: spawnsGuarded_def og_def spawnGroundObstacle_def split_beta Let_def
      lowFlyer_def)

lemma sg_pit [simp]: "og g h \<Longrightarrow> spawnsGuarded g (spawnPit width h)"
  by (cases width)
    (simp_all add: spawnsGuarded_def og_def spawnPit_def split_beta Let_def)

lemma sg_flyer [simp]: "og g h \<Longrightarrow> spawnsGuarded g (spawnFlyer level h)"
  by (cases level)
    (auto simp add: spawnsGuarded_def og_def spawnFlyer_def split_beta Let_def lowFlyer_def)

lemma sg_step [simp]: "og g h \<Longrightarrow> spawnsGuarded g (spawnStep s h)"
  by (cases s) simp_all

lemma sg_single [simp]: "og g h \<Longrightarrow> spawnsGuarded g (spawnSingleFair h)"
  by (simp add: spawnSingleFair_def split_beta Let_def if_distrib [of "spawnsGuarded g"]
      cong del: if_weak_cong split del: if_split)

lemma sg_shiftAndSpawn [simp]: "og g h \<Longrightarrow> spawnsGuarded g (shiftAndSpawn s rest h)"
proof -
  assume a: "og g h"
  have "spawnsGuarded g (spawnStep s (h\<lparr>patternQueue := Some rest\<rparr>))"
    using a by simp
  then show ?thesis
    unfolding shiftAndSpawn_def Let_def
    by (rule spawnsGuarded_post) (simp add: og_def)
qed

lemma sg_manager: "spawnsGuarded g (spawnManagerTick g)"
proof -
  have single: "spawnsGuarded g (scheduleNextAfterSpawn (spawnSingleFair h))" if "og g h" for h
  proof (rule spawnsGuarded_post)
    show "spawnsGuarded g (spawnSingleFair h)" using that by simp
    show "og (spawnSingleFair h) (scheduleNextAfterSpawn (spawnSingleFair h))" by simp
  qed
  show ?thesis
    by (simp add: spawnManagerTick_def split_beta Let_def single
        split: option.splits list.splits)
qed

subsection \<open>Dust, jump and duck\<close>

lemma snd_random: "snd (random g) = g\<lparr>rndPos := Suc (rndPos g)\<rparr>"
  by (simp add: random_def)

lemma snd_rand: "snd (rand mn mx g) = g\<lparr>rndPos := Suc (rndPos g)\<rparr>"
  by (simp add: rand_def split_beta snd_random)

lemma dustless_fields:
  assumes "dustless a = dustless b"
  shows "viewW a = viewW b \<and> viewH a = viewH b \<and> best a = best b \<and> state a = state b \<and>
    groundY a = groundY b \<and> worldSpeed a = worldSpeed b \<and> score a = score b \<and>
    animTime a = animTime b \<and> distSinceSpawn a = distSinceSpawn b \<and>
    nextSpawnDist a = nextSpawnDist b \<and> farOff a = farOff b \<and> midOff a = midOff b \<and>
    nearOff a = nearOff b \<and> groundOff a = groundOff b \<and> clouds a = clouds b \<and>
    nextCloudSpawn a = nextCloudSpawn b \<and> obs a = obs b \<and> lastKind a = lastKind b \<and>
    lastFlyLevel a = lastFlyLevel b \<and> lastSpawnHardness a = lastSpawnHardness b \<and>
    lastSpawnWasHard a = lastSpawnWasHard b \<and> patternQueue a = patternQueue b \<and>
    patternCooldownDist a = patternCooldownDist b \<and> recentPatterns a = recentPatterns b \<and>
    guardAfterPit a = guardAfterPit b \<and> guardAfterLowFlyer a = guardAfterLowFlyer b \<and>
    jumpDown a = jumpDown b \<and> downDown a = downDown b \<and> jumpBuffer a = jumpBuffer b \<and>
    coyote a = coyote b \<and> jumpHold a = jumpHold b \<and> showHitboxes a = showHitboxes b \<and>
    pitFall a = pitFall b \<and> dino a = dino b \<and> rnd a = rnd b"
  using assms by (cases a, cases b) (simp add: dustless_def)

lemma dustless_updates [simp]:
  "dustless (rndPos_update f0 g) = dustless g"
  "dustless (particles_update f1 g) = dustless g"
  by (simp_all add: dustless_def)

lemma dustless_rand [simp]: "dustless (snd (rand mn mx g)) = dustless g"
  by (simp add: snd_rand)

lemma dustless_spawnDust [simp]: "dustless (spawnDust x y n intensity g) = dustless g"
  by (induction n arbitrary: g) (simp_all add: split_beta Let_def)

lemmas spawnDust_fields [simp] = dustless_fields [OF dustless_spawnDust]

lemma applyDuckVisual_fields [simp]:
  "state (applyDuckVisual duck g) = state g"
  "worldSpeed (applyDuckVisual duck g) = worldSpeed g"
  "score (applyDuckVisual duck g) = score g"
  "obs (applyDuckVisual duck g) = obs g"
  "rnd (applyDuckVisual duck g) = rnd g"
  "guardAfterPit (applyDuckVisual duck g) = guardAfterPit g"
  "jumpBuffer (applyDuckVisual duck g) = jumpBuffer g"
  "jumpDown (applyDuckVisual duck g) = jumpDown g"
  "downDown (applyDuckVisual duck g) = downDown g"
  "jumpHold (applyDuckVisual duck g) = jumpHold g"
  "coyote (applyDuckVisual duck g) = coyote g"
  "groundY (applyDuckVisual duck g) = groundY g"
  "viewH (applyDuckVisual duck g) = viewH g"
  "d_onGround (dino (applyDuckVisual duck g)) = d_onGround (dino g)"
  "d_vy (dino (applyDuckVisual duck g)) = d_vy (dino g)"
  "d_x (dino (applyDuckVisual duck g)) = d_x (dino g)"
  by (simp_all add: applyDuckVisual_def)

lemma performJump_fields [simp]:
  "state (performJump g) = state g"
  "worldSpeed (performJump g) = worldSpeed g"
  "score (performJump g) = score g"
  "obs (performJump g) = obs g"
  "rnd (performJump g) = rnd g"
  "guardAfterPit (performJump g) = guardAfterPit g"
  "jumpDown (performJump g) = jumpDown g"
  "downDown (performJump g) = downDown g"
  "groundY (performJump g) = groundY g"
  "viewH (performJump g) = viewH g"
  "jumpHold (performJump g) = 0"
  "jumpBuffer (performJump g) = 0"
  "dino (performJump g) =
     (dino g)\<lparr> d_ducking := False, d_w := STAND_W, d_h := STAND_H,
               d_y := groundY g - STAND_H, d_vy := JUMP_VELOCITY, d_onGround := False \<rparr>"
  by (simp_all add: performJump_def Let_def)

lemma startRunFresh_fields [simp]:
  "state (startRunFresh g) = RUNNING"
  "worldSpeed (startRunFresh g) = 260"
  "score (startRunFresh g) = 0"
  "obs (startRunFresh g) = []"
  "rnd (startRunFresh g) = rnd g"
  "guardAfterPit (startRunFresh g) = 0"
  "jumpDown (startRunFresh g) = jumpDown g"
  "downDown (startRunFresh g) = downDown g"
  "jumpBuffer (startRunFresh g) = jumpBuffer g"
  "groundY (startRunFresh g) = groundY g"
  "nextSpawnDist (startRunFresh g) = 320"
  "d_onGround (dino (startRunFresh g))"
  by (simp_all add: startRunFresh_def)

lemma gameOver_fields [simp]:
  "state (gameOver g) = GAMEOVER"
  "worldSpeed (gameOver g) = worldSpeed g"
  "score (gameOver g) = score g"
  "obs (gameOver g) = obs g"
  "rnd (gameOver g) = rnd g"
  "guardAfterPit (gameOver g) = guardAfterPit g"
  "dino (gameOver g) = dino g"
  "viewH (gameOver g) = viewH g"
  by (simp_all add: gameOver_def Let_def)

lemma tryConsumeJump_idle: "jumpBuffer g \<le> 0 \<Longrightarrow> tryConsumeJump g = g"
  by (simp add: tryConsumeJump_def)

lemma tryConsumeJump_GAMEOVER: "state g = GAMEOVER \<Longrightarrow> tryConsumeJump g = g"
  by (simp add: tryConsumeJump_def)

lemma tryConsumeJump_READY:
  "state g = READY \<Longrightarrow> 0 < jumpBuffer g \<Longrightarrow> tryConsumeJump g = performJump (startRunFresh g)"
  by (simp add: tryConsumeJump_def)

lemma tryConsumeJump_RUNNING:
  "state g = RUNNING \<Longrightarrow>
   tryConsumeJump g =
     (if 0 < jumpBuffer g \<and> (d_onGround (dino g) \<or> coyote g > 0) then performJump g else g)"
  by (simp add: tryConsumeJump_def)

lemma tryConsumeJump_rnd [simp]: "rnd (tryConsumeJump g) = rnd g"
  by (simp add: tryConsumeJump_def Let_def)

lemma tryConsumeJump_not_READY:
  assumes "state g \<noteq> READY"
  shows "state (tryConsumeJump g) = state g \<and> worldSpeed (tryConsumeJump g) = worldSpeed g \<and>
    score (tryConsumeJump g) = score g \<and> obs (tryConsumeJump g) = obs g \<and>
    guardAfterPit (tryConsumeJump g) = guardAfterPit g \<and>
    viewH (tryConsumeJump g) = viewH g \<and> groundY (tryConsumeJump g) = groundY g \<and>
    jumpDown (tryConsumeJump g) = jumpDown g \<and> downDown (tryConsumeJump g) = downDown g"
  using assms by (simp add: tryConsumeJump_def Let_def)

subsection \<open>The parts of the update\<close>

lemma updateParticles_eq: "updateParticles dt g = g\<lparr>particles := particles (updateParticles dt g)\<rparr>"
  by (simp add: updateParticles_def Let_def)

lemma updateJumpBuffer_eq:
  "updateJumpBuffer dt g =
     g\<lparr>jumpBuffer := (if jumpBuffer g > 0 then max 0 (jumpBuffer g - dt) else jumpBuffer g)\<rparr>"
  by (simp add: updateJumpBuffer_def)

text \<open>The first two parts together: only the particles and the jump buffer change.\<close>

lemma update_prefix_eq:
  "updateJumpBuffer dt (updateParticles dt g) =
     g\<lparr> particles := particles (updateParticles dt g),
        jumpBuffer := (if jumpBuffer g > 0 then max 0 (jumpBuffer g - dt) else jumpBuffer g) \<rparr>"
  by (simp add: updateJumpBuffer_def updateParticles_def Let_def)

lemma updatePacing_eq:
  "updatePacing dt g =
     g\<lparr> animTime := animTime g + dt,
        worldSpeed := worldSpeed g + 8 * dt,
        score := score g + dt * ((worldSpeed g + 8 * dt) / 20),
        patternCooldownDist :=
          (if patternCooldownDist g > 0
           then max 0 (patternCooldownDist g - (worldSpeed g + 8 * dt) * dt)
           else patternCooldownDist g),
        guardAfterPit :=
          (if guardAfterPit g > 0 then max 0 (guardAfterPit g - (worldSpeed g + 8 * dt) * dt)
           else guardAfterPit g),
        guardAfterLowFlyer :=
          (if guardAfterLowFlyer g > 0
           then max 0 (guardAfterLowFlyer g - (worldSpeed g + 8 * dt) * dt)
           else guardAfterLowFlyer g) \<rparr>"
  by (cases "patternCooldownDist g > 0"; cases "guardAfterPit g > 0";
      cases "guardAfterLowFlyer g > 0")
    (simp_all add: updatePacing_def Let_def)

lemma updatePacing_fields [simp]:
  "state (updatePacing dt g) = state g"
  "obs (updatePacing dt g) = obs g"
  "rnd (updatePacing dt g) = rnd g"
  "dino (updatePacing dt g) = dino g"
  "jumpBuffer (updatePacing dt g) = jumpBuffer g"
  "jumpDown (updatePacing dt g) = jumpDown g"
  "downDown (updatePacing dt g) = downDown g"
  "jumpHold (updatePacing dt g) = jumpHold g"
  "coyote (updatePacing dt g) = coyote g"
  "groundY (updatePacing dt g) = groundY g"
  "viewH (updatePacing dt g) = viewH g"
  "worldSpeed (updatePacing dt g) = worldSpeed g + 8 * dt"
  "guardAfterPit (updatePacing dt g) =
     (if guardAfterPit g > 0 then max 0 (guardAfterPit g - (worldSpeed g + 8 * dt) * dt)
      else guardAfterPit g)"
  by (simp_all add: updatePacing_eq)

text \<open>With the game running, the actor part writes the actor, its timers and the dust only.\<close>

lemma actorControl_rnd [simp]: "rnd (actorControl dt g) = rnd g"
  by (simp add: actorControl_def Let_def)

lemma actorControl_fields:
  assumes "state g \<noteq> READY"
  shows "state (actorControl dt g) = state g \<and> worldSpeed (actorControl dt g) = worldSpeed g \<and>
    score (actorControl dt g) = score g \<and> obs (actorControl dt g) = obs g \<and>
    guardAfterPit (actorControl dt g) = guardAfterPit g \<and>
    viewH (actorControl dt g) = viewH g \<and> groundY (actorControl dt g) = groundY g \<and>
    jumpDown (actorControl dt g) = jumpDown g \<and> downDown (actorControl dt g) = downDown g"
proof -
  define g2 where
    "g2 = (if d_onGround (dino (applyDuckVisual (downDown g) g))
           then (applyDuckVisual (downDown g) g)\<lparr>coyote := COYOTE_TIME\<rparr>
           else (applyDuckVisual (downDown g) g)
                  \<lparr>coyote := max 0 (coyote (applyDuckVisual (downDown g) g) - dt)\<rparr>)"
  have s2: "state g2 \<noteq> READY" using assms by (simp add: g2_def)
  have g2: "state g2 = state g" "worldSpeed g2 = worldSpeed g" "score g2 = score g"
    "obs g2 = obs g" "guardAfterPit g2 = guardAfterPit g" "viewH g2 = viewH g"
    "groundY g2 = groundY g" "jumpDown g2 = jumpDown g" "downDown g2 = downDown g"
    by (simp_all add: g2_def)
  have "actorControl dt g = tryConsumeJump g2"
    by (simp add: actorControl_def Let_def g2_def)
  then show ?thesis
    using tryConsumeJump_not_READY [OF s2] by (simp add: g2)
qed

lemma actorGravity_fields [simp]:
  "state (actorGravity dt g) = state g"
  "worldSpeed (actorGravity dt g) = worldSpeed g"
  "score (actorGravity dt g) = score g"
  "obs (actorGravity dt g) = obs g"
  "rnd (actorGravity dt g) = rnd g"
  "guardAfterPit (actorGravity dt g) = guardAfterPit g"
  "viewH (actorGravity dt g) = viewH g"
  "groundY (actorGravity dt g) = groundY g"
  "pitFall (actorGravity dt g) = pitFall g"
  by (simp_all add: actorGravity_def Let_def)

lemma actorGround_fields [simp]:
  "state (actorGround g) = state g"
  "worldSpeed (actorGround g) = worldSpeed g"
  "score (actorGround g) = score g"
  "obs (actorGround g) = obs g"
  "rnd (actorGround g) = rnd g"
  "guardAfterPit (actorGround g) = guardAfterPit g"
  "viewH (actorGround g) = viewH g"
  by (simp_all add: actorGround_def Let_def)

lemma updateActor_fields:
  assumes "state g \<noteq> READY"
  shows "state (updateActor dt g) = state g \<and> worldSpeed (updateActor dt g) = worldSpeed g \<and>
    score (updateActor dt g) = score g \<and> obs (updateActor dt g) = obs g \<and>
    guardAfterPit (updateActor dt g) = guardAfterPit g \<and>
    viewH (updateActor dt g) = viewH g"
  using actorControl_fields [OF assms, of dt] by (simp add: updateActor_def)

lemma updateActor_rnd [simp]: "rnd (updateActor dt g) = rnd g"
  by (simp add: updateActor_def)

lemma updateClouds_fields [simp]:
  "state (updateClouds dt g) = state g"
  "worldSpeed (updateClouds dt g) = worldSpeed g"
  "score (updateClouds dt g) = score g"
  "obs (updateClouds dt g) = obs g"
  "rnd (updateClouds dt g) = rnd g"
  "dino (updateClouds dt g) = dino g"
  "guardAfterPit (updateClouds dt g) = guardAfterPit g"
  "viewH (updateClouds dt g) = viewH g"
  by (simp_all add: updateClouds_def Let_def split_beta)

lemma updateWorld_fields [simp]:
  "state (updateWorld dt g) = state g"
  "worldSpeed (updateWorld dt g) = worldSpeed g"
  "score (updateWorld dt g) = score g"
  "rnd (updateWorld dt g) = rnd g"
  "dino (updateWorld dt g) = dino g"
  "viewH (updateWorld dt g) = viewH g"
  by (simp_all add: updateWorld_def Let_def)

lemma updateWorld_spawn:
  "\<exists>h k. og g h \<and> (k = h \<or> spawnsGuarded h k) \<and>
     guardAfterPit (updateWorld dt g) = guardAfterPit k \<and>
     obs (updateWorld dt g) = scrollTrim (worldSpeed g * dt) (obs k)"
proof -
  define h where
    "h = (let g1 = updateClouds dt g;
              g2 = g1\<lparr> farOff := farOff g1 + worldSpeed g1 * FAR_MUL * dt,
                       midOff := midOff g1 + worldSpeed g1 * MID_MUL * dt,
                       nearOff := nearOff g1 + worldSpeed g1 * NEAR_MUL * dt,
                       groundOff := groundOff g1 + worldSpeed g1 * dt \<rparr>
          in g2\<lparr>distSinceSpawn := clamp (distSinceSpawn g2 + worldSpeed g2 * dt) 0 1000000000\<rparr>)"
  define k where "k = (if distSinceSpawn h \<ge> nextSpawnDist h then spawnManagerTick h else h)"
  have h: "og g h" "worldSpeed h = worldSpeed g"
    by (simp_all add: h_def og_def Let_def)
  have k: "k = h \<or> spawnsGuarded h k"
    by (simp add: k_def sg_manager)
  have wk: "worldSpeed k = worldSpeed g"
    using h by (simp add: k_def)
  have "updateWorld dt g =
      k\<lparr>obs := dropWhile (\<lambda>ob. ob_x ob + ob_w ob < - 80)
                 (map (\<lambda>ob. ob\<lparr>ob_x := ob_x ob - worldSpeed k * dt\<rparr>) (obs k))\<rparr>"
    by (simp only: updateWorld_def h_def k_def Let_def)
  then have "guardAfterPit (updateWorld dt g) = guardAfterPit k"
    and "obs (updateWorld dt g) = scrollTrim (worldSpeed g * dt) (obs k)"
    by (simp_all add: scrollTrim_def wk)
  with h k show ?thesis by blast
qed

lemma length_filter_dropWhile:
  "length (filter P (dropWhile Q xs)) \<le> length (filter P xs)"
  by (induction xs) auto

lemma scrollTrim_lowFlyers:
  "length (filter lowFlyer (scrollTrim dx os)) \<le> length (filter lowFlyer os)"
proof -
  have "length (filter lowFlyer (map (\<lambda>ob. ob\<lparr>ob_x := ob_x ob - dx\<rparr>) os)) =
      length (filter lowFlyer os)"
    by (induction os) (simp_all add: lowFlyer_def)
  then show ?thesis
    unfolding scrollTrim_def
    using length_filter_dropWhile
      [of lowFlyer "\<lambda>ob. ob_x ob + ob_w ob < - 80" "map (\<lambda>ob. ob\<lparr>ob_x := ob_x ob - dx\<rparr>) os"]
    by simp
qed

lemma collideLoop_cases:
  "collideLoop dh os g = g \<or>
   (collideLoop dh os g = gameOver g \<and> (\<exists>ob\<in>set os. kind ob \<noteq> PIT \<and> aabb dh (obHitbox ob)))"
  by (induction os) auto

subsection \<open>The update as a whole\<close>

lemma update_prefix_fields [simp]:
  "state (updateJumpBuffer dt (updateParticles dt g)) = state g"
  "worldSpeed (updateJumpBuffer dt (updateParticles dt g)) = worldSpeed g"
  "score (updateJumpBuffer dt (updateParticles dt g)) = score g"
  "obs (updateJumpBuffer dt (updateParticles dt g)) = obs g"
  "rnd (updateJumpBuffer dt (updateParticles dt g)) = rnd g"
  "guardAfterPit (updateJumpBuffer dt (updateParticles dt g)) = guardAfterPit g"
  "dino (updateJumpBuffer dt (updateParticles dt g)) = dino g"
  "jumpDown (updateJumpBuffer dt (updateParticles dt g)) = jumpDown g"
  "downDown (updateJumpBuffer dt (updateParticles dt g)) = downDown g"
  "jumpHold (updateJumpBuffer dt (updateParticles dt g)) = jumpHold g"
  "coyote (updateJumpBuffer dt (updateParticles dt g)) = coyote g"
  "groundY (updateJumpBuffer dt (updateParticles dt g)) = groundY g"
  "viewH (updateJumpBuffer dt (updateParticles dt g)) = viewH g"
  "jumpBuffer (updateJumpBuffer dt (updateParticles dt g)) =
     (if jumpBuffer g > 0 then max 0 (jumpBuffer g - dt) else jumpBuffer g)"
  by (simp_all add: update_prefix_eq)

lemma update_GAMEOVER:
  "state g = GAMEOVER \<Longrightarrow> update dt g = updateJumpBuffer dt (updateParticles dt g)"
  by (simp add: update_def Let_def)

lemma update_READY:
  "state g = READY \<Longrightarrow>
   update dt g =
     tryConsumeJump ((updateJumpBuffer dt (updateParticles dt g))\<lparr>coyote := COYOTE_TIME\<rparr>)"
  by (simp add: update_def Let_def)

lemma update_RUNNING:
  "state g = RUNNING \<Longrightarrow>
   update dt g =
     (let g2 = updateActor dt (updatePacing dt (updateJumpBuffer dt (updateParticles dt g)))
      in if d_y (dino g2) > viewH g2 + 120 then gameOver g2
         else (let g3 = updateWorld dt g2 in collideLoop (dinoHitbox g3) (obs g3) g3))"
  by (simp add: update_def Let_def)

lemma collideLoop_fields [simp]:
  "worldSpeed (collideLoop dh os g) = worldSpeed g"
  "score (collideLoop dh os g) = score g"
  "obs (collideLoop dh os g) = obs g"
  "rnd (collideLoop dh os g) = rnd g"
  "guardAfterPit (collideLoop dh os g) = guardAfterPit g"
  "dino (collideLoop dh os g) = dino g"
  "viewH (collideLoop dh os g) = viewH g"
  using collideLoop_cases [of dh os g] by auto

lemma collideLoop_state:
  "state (collideLoop (dinoHitbox g) (obs g) g) = state g \<or>
   (state (collideLoop (dinoHitbox g) (obs g) g) = GAMEOVER \<and>
    fatal (collideLoop (dinoHitbox g) (obs g) g))"
  using collideLoop_cases [of "dinoHitbox g" "obs g" g]
  by (auto simp add: fatal_def dinoHitbox_def)

lemma update_RUNNING_state:
  assumes "state g = RUNNING"
  shows "state (update dt g) = RUNNING \<or> (state (update dt g) = GAMEOVER \<and> fatal (update dt g))"
proof -
  define g2 where
    "g2 = updateActor dt (updatePacing dt (updateJumpBuffer dt (updateParticles dt g)))"
  define g3 where "g3 = updateWorld dt g2"
  have s2: "state g2 = RUNNING"
    using assms updateActor_fields [of "updatePacing dt (updateJumpBuffer dt (updateParticles dt g))" dt]
    by (simp add: g2_def)
  have s3: "state g3 = RUNNING" using s2 by (simp add: g3_def)
  have u: "update dt g =
      (if d_y (dino g2) > viewH g2 + 120 then gameOver g2
       else collideLoop (dinoHitbox g3) (obs g3) g3)"
    using assms by (simp add: update_RUNNING Let_def g2_def g3_def)
  show ?thesis
  proof (cases "d_y (dino g2) > viewH g2 + 120")
    case True
    then show ?thesis by (simp add: u fatal_def)
  next
    case False
    then show ?thesis using collideLoop_state [of g3] s3 by (simp add: u)
  qed
qed

lemma update_RUNNING_fields:
  assumes "state g = RUNNING"
  shows "worldSpeed (update dt g) = worldSpeed g + 8 * dt"
proof -
  have "state (updatePacing dt (updateJumpBuffer dt (updateParticles dt g))) \<noteq> READY"
    using assms by simp
  note a = updateActor_fields [OF this, of dt]
  show ?thesis
    using assms by (simp add: update_RUNNING Let_def a)
qed

lemma update_rnd [simp]: "rnd (update dt g) = rnd g"
  by (cases "state g") (simp_all add: update_GAMEOVER update_READY update_RUNNING Let_def)

text \<open>An idle tick: without a buffered jump, READY stays READY and nothing of the run moves;
  with one, the run starts afresh.\<close>

lemma update_READY_fields:
  assumes "state g = READY"
  shows "if 0 < jumpBuffer (updateJumpBuffer dt g)
         then state (update dt g) = RUNNING \<and> worldSpeed (update dt g) = 260 \<and>
              score (update dt g) = 0 \<and> obs (update dt g) = []
         else state (update dt g) = READY \<and> worldSpeed (update dt g) = worldSpeed g \<and>
              score (update dt g) = score g \<and> obs (update dt g) = obs g"
proof -
  define h where "h = (updateJumpBuffer dt (updateParticles dt g))\<lparr>coyote := COYOTE_TIME\<rparr>"
  have h: "state h = READY" "jumpBuffer h = jumpBuffer (updateJumpBuffer dt g)"
    "worldSpeed h = worldSpeed g" "score h = score g" "obs h = obs g"
    using assms by (simp_all add: h_def) (simp add: updateJumpBuffer_def)
  have u: "update dt g = tryConsumeJump h"
    using assms by (simp add: update_READY h_def)
  show ?thesis
  proof (cases "0 < jumpBuffer (updateJumpBuffer dt g)")
    case True
    then show ?thesis by (simp add: u tryConsumeJump_READY h)
  next
    case False
    then show ?thesis by (simp add: u tryConsumeJump_idle h)
  qed
qed

lemma updateJumpBuffer_pending: "0 < jumpBuffer (updateJumpBuffer dt g) \<Longrightarrow> 0 < jumpBuffer g"
  by (simp add: updateJumpBuffer_def split: if_splits)

lemma update_GAMEOVER_fields:
  assumes "state g = GAMEOVER"
  shows "state (update dt g) = GAMEOVER \<and> worldSpeed (update dt g) = worldSpeed g \<and>
    score (update dt g) = score g \<and> obs (update dt g) = obs g"
  using assms by (simp add: update_GAMEOVER)

subsection \<open>Reset and the input handlers\<close>

lemma cloudless_fields:
  assumes "cloudless a = cloudless b"
  shows "viewW a = viewW b \<and> viewH a = viewH b \<and> best a = best b \<and> state a = state b \<and>
    groundY a = groundY b \<and> worldSpeed a = worldSpeed b \<and> score a = score b \<and>
    animTime a = animTime b \<and> distSinceSpawn a = distSinceSpawn b \<and>
    nextSpawnDist a = nextSpawnDist b \<and> farOff a = farOff b \<and> midOff a = midOff b \<and>
    nearOff a = nearOff b \<and> groundOff a = groundOff b \<and>
    nextCloudSpawn a = nextCloudSpawn b \<and> obs a = obs b \<and> lastKind a = lastKind b \<and>
    lastFlyLevel a = lastFlyLevel b \<and> lastSpawnHardness a = lastSpawnHardness b \<and>
    lastSpawnWasHard a = lastSpawnWasHard b \<and> patternQueue a = patternQueue b \<and>
    patternCooldownDist a = patternCooldownDist b \<and> recentPatterns a = recentPatterns b \<and>
    guardAfterPit a = guardAfterPit b \<and> guardAfterLowFlyer a = guardAfterLowFlyer b \<and>
    jumpDown a = jumpDown b \<and> downDown a = downDown b \<and> jumpBuffer a = jumpBuffer b \<and>
    coyote a = coyote b \<and> jumpHold a = jumpHold b \<and> showHitboxes a = showHitboxes b \<and>
    particles a = particles b \<and> pitFall a = pitFall b \<and> dino a = dino b \<and> rnd a = rnd b"
  using assms by (cases a, cases b) (simp add: cloudless_def)

lemma cloudless_updates [simp]:
  "cloudless (rndPos_update f0 g) = cloudless g"
  "cloudless (clouds_update f1 g) = cloudless g"
  by (simp_all add: cloudless_def)

lemma cloudless_rand [simp]: "cloudless (snd (rand mn mx g)) = cloudless g"
  by (simp add: snd_rand)

lemma cloudless_resetClouds [simp]: "cloudless (resetClouds n g) = cloudless g"
  by (induction n arbitrary: g) (simp_all add: split_beta Let_def)

lemmas resetClouds_fields [simp] = cloudless_fields [OF cloudless_resetClouds]

text \<open>A reset is a fresh start with a different lifecycle state and first spawn distance;
  it also clears the jump buffer and the particles, and rolls new clouds.\<close>

lemma resetToReady_shape:
  "resetToReady g =
     (startRunFresh g)\<lparr> state := READY, nextSpawnDist := 360, jumpBuffer := 0, particles := [],
        clouds := clouds (resetToReady g), nextCloudSpawn := nextCloudSpawn (resetToReady g),
        rndPos := rndPos (resetToReady g) \<rparr>"
  by (rule Game.equality) (simp_all add: resetToReady_def Let_def split_beta startRunFresh_def)

lemma resetToReady_fields [simp]:
  "state (resetToReady g) = READY"
  "worldSpeed (resetToReady g) = 260"
  "score (resetToReady g) = 0"
  "obs (resetToReady g) = []"
  "rnd (resetToReady g) = rnd g"
  "guardAfterPit (resetToReady g) = 0"
  "jumpDown (resetToReady g) = jumpDown g"
  "jumpBuffer (resetToReady g) = 0"
  "nextSpawnDist (resetToReady g) = 360"
  "d_onGround (dino (resetToReady g))"
  "d_vy (dino (resetToReady g)) = 0"
  by (simp_all add: resetToReady_def Let_def split_beta)

lemma resize_fields [simp]:
  "state (resize rw rh g) = state g"
  "worldSpeed (resize rw rh g) = worldSpeed g"
  "score (resize rw rh g) = score g"
  "obs (resize rw rh g) = obs g"
  "rnd (resize rw rh g) = rnd g"
  "jumpDown (resize rw rh g) = jumpDown g"
  "jumpBuffer (resize rw rh g) = jumpBuffer g"
  by (simp_all add: resize_def Let_def)

lemma cutJumpIfNeeded_fields [simp]:
  "state (cutJumpIfNeeded g) = state g"
  "worldSpeed (cutJumpIfNeeded g) = worldSpeed g"
  "score (cutJumpIfNeeded g) = score g"
  "obs (cutJumpIfNeeded g) = obs g"
  "rnd (cutJumpIfNeeded g) = rnd g"
  by (simp_all add: cutJumpIfNeeded_def)

subsection \<open>An invariant of the reachable states\<close>

lemma runInv_startGame:
  "(\<And>n. 0 \<le> randoms n \<and> randoms n < 1) \<Longrightarrow> runInv (startGame rw rh b randoms)"
  by (simp add: runInv_def startGame_def declared_def)

lemma runInv_update:
  assumes "runInv g" and "0 \<le> dt"
  shows "runInv (update dt g)"
proof (cases "state g")
  case READY
  then show ?thesis
    using assms update_READY_fields [OF READY, of dt]
    by (auto simp add: runInv_def split: if_splits)
next
  case RUNNING
  then show ?thesis
    using assms update_RUNNING_fields [OF RUNNING, of dt] update_RUNNING_state [OF RUNNING, of dt]
    by (auto simp add: runInv_def)
next
  case GAMEOVER
  then show ?thesis
    using assms update_GAMEOVER_fields [OF GAMEOVER, of dt]
    by (auto simp add: runInv_def)
qed

lemma runInv_step: "runInv g \<Longrightarrow> runInv (step e g)"
proof (cases e)
  case (KeyDown code repeat)
  assume "runInv g"
  then show ?thesis
    by (simp add: KeyDown runInv_def onKeyDown_def restartRun_def queueJump_def Let_def)
next
  case (KeyUp code)
  assume "runInv g"
  then show ?thesis by (simp add: KeyUp runInv_def onKeyUp_def)
next
  case PointerDown
  assume "runInv g"
  then show ?thesis by (simp add: PointerDown runInv_def onPointerDown_def restartRun_def queueJump_def)
next
  case PointerUp
  assume "runInv g"
  then show ?thesis by (simp add: PointerUp runInv_def onPointerUp_def)
next
  case (Resize rw rh)
  assume "runInv g"
  then show ?thesis by (simp add: Resize runInv_def)
next
  case Tick
  assume "runInv g"
  then show ?thesis using runInv_update [of g FIXED_DT] by (simp add: Tick FIXED_DT_def)
qed

lemma reachable_runInv: "reachable g \<Longrightarrow> runInv g"
  by (induction rule: reachable.induct) (simp_all add: runInv_startGame runInv_step)

subsection \<open>Evaluation of a tick on a given state\<close>

text \<open>The equations that evaluate the spawn director and one tick on a concrete state.\<close>

lemmas tick_defs = update_def Let_def updateParticles_def updateJumpBuffer_def updatePacing_eq
  updateActor_def actorControl_def applyDuckVisual_def tryConsumeJump_def actorGravity_def
  actorGround_def isOverPit_def updateWorld_def updateClouds_def spawnManagerTick_def
  canStartPattern_def spawnSingleFair_def spawnPit_def computeSafePitWidth_def
  scheduleNextAfterSpawn_def computeNextSpawnDist_def speedFactor_def stage_def difficulty01_def
  rand_def random_def andRandomLt_def clamp_def dinoHitbox_def obHitbox_def aabb_def
  declared_def startRunFresh_def consts_defs split_beta gameOver_def shiftAndSpawn_def
  spawnFlyer_def scaledGap_def

subsection \<open>The width of a pit\<close>

lemma rand_range:
  assumes "0 \<le> rnd g (rndPos g)" "rnd g (rndPos g) < 1" "mn \<le> mx"
  shows "mn \<le> fst (rand mn mx g) \<and> fst (rand mn mx g) \<le> mx"
proof -
  let ?u = "rnd g (rndPos g)"
  have eq: "fst (rand mn mx g) = mn + ?u * (mx - mn)"
    by (simp add: rand_def random_def)
  have "0 \<le> ?u * (mx - mn)" using assms by simp
  moreover have "?u * (mx - mn) \<le> 1 * (mx - mn)"
    using assms by (intro mult_right_mono) simp_all
  ultimately show ?thesis by (simp add: eq)
qed

lemma spawnPit_None_obs:
  "obs (spawnPit None g) = obs g @
     [\<lparr> kind = PIT, ob_x = viewW g + 40, ob_y = groundY g,
        ob_w = fst (rand PIT_MIN_W (computeSafePitWidth g) g), ob_h = PIT_VISUAL_DEPTH,
        flightLevel = None, variant = None, seed = None, hardness = Some (135 / 100) \<rparr>]"
  by (simp add: spawnPit_def split_beta Let_def)

lemma computeSafePitWidth_run:
  "260 \<le> worldSpeed g \<Longrightarrow>
   computeSafePitWidth g = min PIT_MAX_W_HARDCAP (worldSpeed g * (62 / 100) - 45) \<and>
   PIT_MIN_W \<le> computeSafePitWidth g"
  by (simp add: computeSafePitWidth_def clamp_def PIT_MIN_W_def PIT_MAX_W_HARDCAP_def Let_def)



text \<open>
  C2, as stated: at world speed 260 the safe width is in \<open>[90, 115.2]\<close> and so is the
  width of any pit spawned at that speed. It fails: \<open>260 * 0.62 - 45\<close> is 116.2, the safe
  width is 116.2, and a draw of 0.99 gives a pit of width 115.938. A pit spawned with an
  explicit width of 300 is 300 wide.
\<close>

theorem pit_width_at_260_counterexample:
  "worldSpeed (declared 0 (\<lambda>_. 99 / 100)) = 260 \<and>
   computeSafePitWidth (declared 0 (\<lambda>_. 99 / 100)) = 1162 / 10 \<and>
   \<not> computeSafePitWidth (declared 0 (\<lambda>_. 99 / 100)) \<le> 1152 / 10 \<and>
   obs (spawnPit None (declared 0 (\<lambda>_. 99 / 100))) =
     [\<lparr> kind = PIT, ob_x = 680, ob_y = 272, ob_w = 115938 / 1000, ob_h = 84,
        flightLevel = None, variant = None, seed = None, hardness = Some (135 / 100) \<rparr>] \<and>
   \<not> (115938 / 1000 :: real) \<le> 1152 / 10 \<and>
   obs (spawnPit (Some 300) (declared 0 (\<lambda>_. 99 / 100))) =
     [\<lparr> kind = PIT, ob_x = 680, ob_y = 272, ob_w = 300, ob_h = 84,
        flightLevel = None, variant = None, seed = None, hardness = Some (135 / 100) \<rparr>]"
  by (simp add: spawnPit_def Let_def spawnPit_None_obs computeSafePitWidth_def clamp_def
      rand_def random_def declared_def consts_defs)

text \<open>
  C2, amended: at world speed 260 the safe width is a value in the interval
  \<open>[90, min 240 (260 * 0.62 - 45)]\<close>, whose upper end lies above 115.2, and a pit spawned
  at that speed without an explicit width has a width inside that interval.
\<close>

theorem pit_width_at_260:
  assumes "worldSpeed g = 260" and "0 \<le> rnd g (rndPos g)" and "rnd g (rndPos g) < 1"
  shows "90 \<le> computeSafePitWidth g \<and>
         computeSafePitWidth g \<le> min PIT_MAX_W_HARDCAP (260 * (62 / 100) - 45) \<and>
         1152 / 10 < min PIT_MAX_W_HARDCAP (260 * (62 / 100) - 45) \<and>
         (\<exists>ob. obs (spawnPit None g) = obs g @ [ob] \<and> kind ob = PIT \<and>
               90 \<le> ob_w ob \<and> ob_w ob \<le> min PIT_MAX_W_HARDCAP (260 * (62 / 100) - 45))"
proof -
  have ws: "260 \<le> worldSpeed g" using assms(1) by simp
  note eq = computeSafePitWidth_run [OF ws, THEN conjunct1]
    and le = computeSafePitWidth_run [OF ws, THEN conjunct2]
  define w where "w = fst (rand PIT_MIN_W (computeSafePitWidth g) g)"
  define m where "m = min PIT_MAX_W_HARDCAP (260 * (62 / 100) - 45)"
  have c: "computeSafePitWidth g = m"
    using eq assms(1) by (simp add: m_def)
  have r: "PIT_MIN_W \<le> w" "w \<le> m"
    using rand_range [OF assms(2,3) le] by (simp_all add: w_def c)
  have lo: "90 \<le> m" "1152 / 10 < m"
    by (simp_all add: m_def PIT_MAX_W_HARDCAP_def)
  have "\<exists>ob. obs (spawnPit None g) = obs g @ [ob] \<and> kind ob = PIT \<and> 90 \<le> ob_w ob \<and> ob_w ob \<le> m"
    using r unfolding spawnPit_None_obs w_def [symmetric] by (simp add: PIT_MIN_W_def)
  with lo c show ?thesis
    unfolding m_def [symmetric] by simp
qed

theorem pit_width_at_260_witness:
  "worldSpeed (declared 0 (\<lambda>_. 99 / 100)) = 260 \<and>
   90 \<le> computeSafePitWidth (declared 0 (\<lambda>_. 99 / 100)) \<and>
   computeSafePitWidth (declared 0 (\<lambda>_. 99 / 100))
     \<le> min PIT_MAX_W_HARDCAP (260 * (62 / 100) - 45) \<and>
   (\<exists>ob. obs (spawnPit None (declared 0 (\<lambda>_. 99 / 100))) =
            obs (declared 0 (\<lambda>_. 99 / 100)) @ [ob] \<and> kind ob = PIT \<and>
          90 \<le> ob_w ob \<and> ob_w ob \<le> min PIT_MAX_W_HARDCAP (260 * (62 / 100) - 45))"
  using pit_width_at_260 [of "declared 0 (\<lambda>_. 99 / 100)"]
  by (simp add: declared_def)

text \<open>
  C10. A pit spawned with an explicit width, as a pattern step of kind PIT may supply it,
  has exactly that width: the safe width is not consulted and no value is drawn.
\<close>

theorem spawnPit_explicit_width:
  "obs (spawnPit (Some wd) g) = obs g @
     [\<lparr> kind = PIT, ob_x = viewW g + 40, ob_y = groundY g, ob_w = wd,
        ob_h = PIT_VISUAL_DEPTH, flightLevel = None, variant = None, seed = None,
        hardness = Some (135 / 100) \<rparr>] \<and>
   spawnStep (StepPit gb (Some wd)) g = spawnPit (Some wd) g \<and>
   rndPos (spawnPit (Some wd) g) = rndPos g"
  by (simp add: spawnPit_def Let_def)

theorem spawnPit_explicit_width_witness:
  "obs (spawnStep (StepPit 300 (Some 1000)) (declared 0 (\<lambda>_. 1 / 2))) =
     [\<lparr> kind = PIT, ob_x = 680, ob_y = 272, ob_w = 1000, ob_h = 84,
        flightLevel = None, variant = None, seed = None, hardness = Some (135 / 100) \<rparr>] \<and>
   computeSafePitWidth (declared 0 (\<lambda>_. 1 / 2)) = 1162 / 10"
  using spawnPit_explicit_width [of 1000 "declared 0 (\<lambda>_. 1 / 2)" 300]
  by (simp add: declared_def consts_defs computeSafePitWidth_def clamp_def)

subsection \<open>The overlap test\<close>

text \<open>
  C5, as stated: hit-rectangles whose edges touch and whose interiors are disjoint do not
  overlap, so edge contact never ends the run. It fails: the test is inclusive. The right
  edge of the first rectangle below is the left edge of the second, and the scan of a
  running game whose actor touches a cactus in this way ends the run.
\<close>

theorem aabb_touching_counterexample:
  "r_x \<lparr>r_x = 94, r_y = 244, r_w = 24, r_h = 24\<rparr> + r_w \<lparr>r_x = 94, r_y = 244, r_w = 24, r_h = 24\<rparr>
     = r_x \<lparr>r_x = 118, r_y = 236, r_w = 18, r_h = 32\<rparr> \<and>
   aabb \<lparr>r_x = 94, r_y = 244, r_w = 24, r_h = 24\<rparr> \<lparr>r_x = 118, r_y = 236, r_w = 18, r_h = 32\<rparr> \<and>
   dinoHitbox ((declared 0 (\<lambda>_. 0))\<lparr>state := RUNNING, dino := (dino (declared 0 (\<lambda>_. 0)))\<lparr>d_y := 240\<rparr>\<rparr>)
     = \<lparr>r_x = 94, r_y = 244, r_w = 24, r_h = 24\<rparr> \<and>
   obHitbox \<lparr> kind = CACTUS, ob_x = 114, ob_y = 232, ob_w = 26, ob_h = 40, flightLevel = None,
              variant = Some CACTUS_SINGLE, seed = Some 1, hardness = Some 1 \<rparr>
     = \<lparr>r_x = 118, r_y = 236, r_w = 18, r_h = 32\<rparr> \<and>
   state (collideLoop \<lparr>r_x = 94, r_y = 244, r_w = 24, r_h = 24\<rparr>
           [\<lparr> kind = CACTUS, ob_x = 114, ob_y = 232, ob_w = 26, ob_h = 40, flightLevel = None,
               variant = Some CACTUS_SINGLE, seed = Some 1, hardness = Some 1 \<rparr>]
           ((declared 0 (\<lambda>_. 0))\<lparr>state := RUNNING,
              dino := (dino (declared 0 (\<lambda>_. 0)))\<lparr>d_y := 240\<rparr>\<rparr>)) = GAMEOVER"
  by (simp add: aabb_def dinoHitbox_def obHitbox_def declared_def consts_defs)

lemma collideLoop_overlap:
  "ob \<in> set os \<Longrightarrow> kind ob \<noteq> PIT \<Longrightarrow> aabb dh (obHitbox ob) \<Longrightarrow>
   collideLoop dh os g = gameOver g"
  by (induction os) auto

lemma edgeContact_aabb: "edgeContact a b \<Longrightarrow> aabb a b"
  by (auto simp add: edgeContact_def aabb_def)

text \<open>
  C5, amended: for every pair of hit-rectangles whose edges exactly touch (the right edge
  of one is the left edge of the other, or the bottom of one the top of the other) the
  overlap test reports an overlap, so edge contact between the actor and an obstacle that
  is not a pit ends the run: the scan for a collision stops the game in state GAMEOVER,
  and so does the tick of a running game whose actor, after the world has moved, touches
  such an obstacle. Rectangles with a strict gap between them along an axis are reported
  as not overlapping.
\<close>

theorem aabb_edge_contact_ends_run:
  "(edgeContact a b \<longrightarrow> aabb a b) \<and>
   (ob \<in> set os \<and> kind ob \<noteq> PIT \<and> edgeContact dh (obHitbox ob) \<longrightarrow>
      state (collideLoop dh os g) = GAMEOVER) \<and>
   (state g = RUNNING \<and>
    \<not> d_y (dino (updateActor dt (updatePacing dt (updateJumpBuffer dt (updateParticles dt g)))))
        > viewH g + 120 \<and>
    ob \<in> set (obs (updateWorld dt
                (updateActor dt (updatePacing dt (updateJumpBuffer dt (updateParticles dt g)))))) \<and>
    kind ob \<noteq> PIT \<and>
    edgeContact
      (dinoHitbox (updateWorld dt
         (updateActor dt (updatePacing dt (updateJumpBuffer dt (updateParticles dt g))))))
      (obHitbox ob) \<longrightarrow>
      state (update dt g) = GAMEOVER) \<and>
   (r_x a + r_w a < r_x b \<or> r_x b + r_w b < r_x a \<or>
    r_y a + r_h a < r_y b \<or> r_y b + r_h b < r_y a \<longrightarrow> \<not> aabb a b)"
proof (intro conjI impI)
  assume "edgeContact a b"
  then show "aabb a b" by (rule edgeContact_aabb)
next
  assume "ob \<in> set os \<and> kind ob \<noteq> PIT \<and> edgeContact dh (obHitbox ob)"
  then have "collideLoop dh os g = gameOver g"
    using collideLoop_overlap edgeContact_aabb by blast
  then show "state (collideLoop dh os g) = GAMEOVER" by simp
next
  define g2 where
    "g2 = updateActor dt (updatePacing dt (updateJumpBuffer dt (updateParticles dt g)))"
  define g3 where "g3 = updateWorld dt g2"
  assume a: "state g = RUNNING \<and>
    \<not> d_y (dino (updateActor dt (updatePacing dt (updateJumpBuffer dt (updateParticles dt g)))))
        > viewH g + 120 \<and>
    ob \<in> set (obs (updateWorld dt
                (updateActor dt (updatePacing dt (updateJumpBuffer dt (updateParticles dt g)))))) \<and>
    kind ob \<noteq> PIT \<and>
    edgeContact
      (dinoHitbox (updateWorld dt
         (updateActor dt (updatePacing dt (updateJumpBuffer dt (updateParticles dt g))))))
      (obHitbox ob)"
  then have r: "state g = RUNNING" and nf: "\<not> d_y (dino g2) > viewH g + 120"
    and ob: "ob \<in> set (obs g3)" "kind ob \<noteq> PIT" "edgeContact (dinoHitbox g3) (obHitbox ob)"
    by (simp_all add: g2_def g3_def)
  have v: "viewH g2 = viewH g"
    using r updateActor_fields [of "updatePacing dt (updateJumpBuffer dt (updateParticles dt g))" dt]
    by (simp add: g2_def)
  have "update dt g = collideLoop (dinoHitbox g3) (obs g3) g3"
    using r nf by (simp add: update_RUNNING Let_def g2_def [symmetric] g3_def [symmetric] v)
  also have "\<dots> = gameOver g3"
    using ob collideLoop_overlap edgeContact_aabb by blast
  finally show "state (update dt g) = GAMEOVER" by simp
next
  assume "r_x a + r_w a < r_x b \<or> r_x b + r_w b < r_x a \<or>
    r_y a + r_h a < r_y b \<or> r_y b + r_h b < r_y a"
  then show "\<not> aabb a b" by (auto simp add: aabb_def)
qed

theorem aabb_edge_contact_ends_run_witness:
  "edgeContact \<lparr>r_x = 94, r_y = 244, r_w = 24, r_h = 24\<rparr> \<lparr>r_x = 118, r_y = 236, r_w = 18, r_h = 32\<rparr> \<and>
   aabb \<lparr>r_x = 94, r_y = 244, r_w = 24, r_h = 24\<rparr> \<lparr>r_x = 118, r_y = 236, r_w = 18, r_h = 32\<rparr> \<and>
   \<not> aabb \<lparr>r_x = 94, r_y = 244, r_w = 24, r_h = 24\<rparr> \<lparr>r_x = 119, r_y = 236, r_w = 18, r_h = 32\<rparr> \<and>
   state (collideLoop \<lparr>r_x = 94, r_y = 244, r_w = 24, r_h = 24\<rparr>
           [\<lparr> kind = CACTUS, ob_x = 114, ob_y = 232, ob_w = 26, ob_h = 40, flightLevel = None,
               variant = Some CACTUS_SINGLE, seed = Some 1, hardness = Some 1 \<rparr>]
           (startRunFresh (declared 0 (\<lambda>_. 0)))) = GAMEOVER \<and>
   state ((startRunFresh (declared 0 (\<lambda>_. 0)))\<lparr>obs :=
            [\<lparr> kind = FLYER, ob_x = 90, ob_y = 226, ob_w = 48, ob_h = 24, flightLevel = Some 1,
               variant = None, seed = None, hardness = Some (75 / 100) \<rparr>]\<rparr>) = RUNNING \<and>
   edgeContact \<lparr>r_x = 94, r_y = 244, r_w = 24, r_h = 24\<rparr>
     (obHitbox \<lparr> kind = FLYER, ob_x = 158099 / 1800, ob_y = 226, ob_w = 48, ob_h = 24,
                flightLevel = Some 1, variant = None, seed = None, hardness = Some (75 / 100) \<rparr>) \<and>
   state (update FIXED_DT ((startRunFresh (declared 0 (\<lambda>_. 0)))\<lparr>obs :=
            [\<lparr> kind = FLYER, ob_x = 90, ob_y = 226, ob_w = 48, ob_h = 24, flightLevel = Some 1,
               variant = None, seed = None, hardness = Some (75 / 100) \<rparr>]\<rparr>)) = GAMEOVER"
proof -
  define a :: Rect where "a = \<lparr>r_x = 94, r_y = 244, r_w = 24, r_h = 24\<rparr>"
  define b :: Rect where "b = \<lparr>r_x = 118, r_y = 236, r_w = 18, r_h = 32\<rparr>"
  define c :: Rect where "c = \<lparr>r_x = 119, r_y = 236, r_w = 18, r_h = 32\<rparr>"
  define cactus where
    "cactus = \<lparr> kind = CACTUS, ob_x = 114, ob_y = 232, ob_w = 26, ob_h = 40, flightLevel = None,
               variant = Some CACTUS_SINGLE, seed = Some 1, hardness = Some 1 \<rparr>"
  define flyer where
    "flyer = \<lparr> kind = FLYER, ob_x = 158099 / 1800, ob_y = 226, ob_w = 48, ob_h = 24,
                flightLevel = Some 1, variant = None, seed = None, hardness = Some (75 / 100) \<rparr>"
  define g where
    "g = (startRunFresh (declared 0 (\<lambda>_. 0)))\<lparr>obs :=
            [\<lparr> kind = FLYER, ob_x = 90, ob_y = 226, ob_w = 48, ob_h = 24, flightLevel = Some 1,
               variant = None, seed = None, hardness = Some (75 / 100) \<rparr>]\<rparr>"
  define g2 where
    "g2 = updateActor FIXED_DT (updatePacing FIXED_DT
            (updateJumpBuffer FIXED_DT (updateParticles FIXED_DT g)))"
  have ab: "edgeContact a b" by (simp add: a_def b_def edgeContact_def)
  have ac: "r_x a + r_w a < r_x c" by (simp add: a_def c_def)
  have hb: "obHitbox cactus = b" "kind cactus \<noteq> PIT"
    by (simp_all add: cactus_def b_def obHitbox_def HIT_PAD_def)
  have g: "state g = RUNNING" "viewH g = 360"
    by (simp_all add: g_def declared_def startRunFresh_def BASE_VIEW_H_def)
  have g2: "d_y (dino g2) = 240"
    by (simp add: g2_def g_def tick_defs)
  have g3: "obs (updateWorld FIXED_DT g2) = [flyer]" "dinoHitbox (updateWorld FIXED_DT g2) = a"
    by (simp_all add: g2_def g_def flyer_def a_def tick_defs)
  have fl: "kind flyer \<noteq> PIT" "edgeContact a (obHitbox flyer)"
    by (simp_all add: flyer_def a_def edgeContact_def obHitbox_def)
  note t1 = aabb_edge_contact_ends_run
    [of a b cactus "[cactus]" a "startRunFresh (declared 0 (\<lambda>_. 0))" FIXED_DT]
  note t2 = aabb_edge_contact_ends_run [of a c flyer "[flyer]" a g FIXED_DT]
  from t1 t2 ab ac hb g g2 g3 fl show ?thesis
    unfolding g2_def [symmetric] g_def [symmetric] a_def [symmetric] b_def [symmetric]
      c_def [symmetric] cactus_def [symmetric] flyer_def [symmetric]
    by simp
qed

subsection \<open>Reset and restart\<close>

text \<open>
  C4, as stated: a restart and a reset give the same values to the actor, the obstacles,
  the spawn schedule, the guards, the score and the speed, and differ in the lifecycle
  state only. It fails on the spawn schedule: the distance to the first spawn is 320
  after a restart and 360 after a reset.
\<close>

theorem restart_reset_counterexample:
  "nextSpawnDist (restartRun (declared 0 (\<lambda>_. 1 / 2))) = 320 \<and>
   nextSpawnDist (resetToReady (declared 0 (\<lambda>_. 1 / 2))) = 360"
  by (simp add: restartRun_def)

text \<open>
  C4, amended: a restart and a reset give the same initial values to the actor, the
  obstacle list, the guards, the score, the world speed and the spawn schedule except
  for the distance to the first spawn (320 after a restart, 360 after a reset). Besides
  that distance and the lifecycle state (RUNNING after a restart, READY after a reset),
  the two results differ only in what a reset does in addition: it clears the jump buffer
  and the particles and rolls new clouds from the random stream.
\<close>

theorem restart_reset_difference:
  "resetToReady g =
     (restartRun g)\<lparr> state := READY, nextSpawnDist := 360, jumpBuffer := 0, particles := [],
        clouds := clouds (resetToReady g), nextCloudSpawn := nextCloudSpawn (resetToReady g),
        rndPos := rndPos (resetToReady g) \<rparr> \<and>
   state (restartRun g) = RUNNING \<and> nextSpawnDist (restartRun g) = 320 \<and>
   worldSpeed (restartRun g) = 260 \<and> score (restartRun g) = 0 \<and> obs (restartRun g) = [] \<and>
   distSinceSpawn (restartRun g) = 0 \<and> patternQueue (restartRun g) = None \<and>
   patternCooldownDist (restartRun g) = 0 \<and> recentPatterns (restartRun g) = [] \<and>
   guardAfterPit (restartRun g) = 0 \<and> guardAfterLowFlyer (restartRun g) = 0 \<and>
   dino (restartRun g) =
     (dino g)\<lparr> d_ducking := False, d_w := STAND_W, d_h := STAND_H, d_vy := 0,
               d_onGround := True, d_y := groundY g - STAND_H \<rparr>"
  using resetToReady_shape [of g] by (simp add: restartRun_def startRunFresh_def)

theorem restart_reset_difference_witness:
  "state (resetToReady (declared 0 (\<lambda>_. 1 / 2))) = READY \<and>
   state (restartRun (declared 0 (\<lambda>_. 1 / 2))) = RUNNING \<and>
   worldSpeed (resetToReady (declared 0 (\<lambda>_. 1 / 2))) = 260 \<and>
   worldSpeed (restartRun (declared 0 (\<lambda>_. 1 / 2))) = 260 \<and>
   obs (resetToReady (declared 0 (\<lambda>_. 1 / 2))) = obs (restartRun (declared 0 (\<lambda>_. 1 / 2)))"
  using restart_reset_difference [of "declared 0 (\<lambda>_. 1 / 2)"] by simp

subsection \<open>Spawned geometry\<close>

lemma mulberry32_seed_1:
  "mulberry32_next (mulberry32 1) = (2693262067 / 4294967296, 1831565814)"
  by (simp add: mulberry32_def mulberry32_next_def Let_def)

lemma mulberry32_seed_1_second:
  "mulberry32_next 1831565814 = (11749833 / 4294967296, 3663131627)"
  by (simp add: mulberry32_next_def Let_def)

text \<open>
  C9, as stated: the width and height are a function of the seed and the variant alone.
  It fails: for the same seed 1 and the variant \<^verbatim>\<open>CACTUS_SINGLE\<close> the height drawn at
  score 0 (stage EARLY, range 34 to 56) is not the one drawn at score 2000 (stage
  LATE, range 34 to 62).
\<close>

theorem makeGroundDims_counterexample:
  "makeGroundDims CACTUS_SINGLE 1 (declared 0 (\<lambda>_. 0)) =
     (31702106329 / 1073741824, 73143692195 / 2147483648) \<and>
   makeGroundDims CACTUS_SINGLE 1 ((declared 0 (\<lambda>_. 0))\<lparr>score := 2000\<rparr>) =
     (31702106329 / 1073741824, 36589470847 / 1073741824) \<and>
   makeGroundDims CACTUS_SINGLE 1 (declared 0 (\<lambda>_. 0)) \<noteq>
     makeGroundDims CACTUS_SINGLE 1 ((declared 0 (\<lambda>_. 0))\<lparr>score := 2000\<rparr>)"
proof -
  define gE where "gE = declared 0 (\<lambda>_. 0)"
  define gL where "gL = (declared 0 (\<lambda>_. 0))\<lparr>score := 2000\<rparr>"
  have e: "stage gE = EARLY" "difficulty01 gE = 0" "maxGroundWidthCap gE = 115"
    "maxGroundHeightCap gE = 72"
    by (simp_all add: gE_def declared_def stage_def difficulty01_def maxGroundWidthCap_def
        maxGroundHeightCap_def clamp_def)
  have l: "stage gL = LATE" "difficulty01 gL = 0" "maxGroundWidthCap gL = 190"
    "maxGroundHeightCap gL = 90"
    by (simp_all add: gL_def declared_def stage_def difficulty01_def maxGroundWidthCap_def
        maxGroundHeightCap_def clamp_def)
  have "makeGroundDims CACTUS_SINGLE 1 gE =
      (31702106329 / 1073741824, 73143692195 / 2147483648)"
    unfolding makeGroundDims_def e mulberry32_seed_1
    by (simp add: clamp_def mulberry32_seed_1_second)
  moreover have "makeGroundDims CACTUS_SINGLE 1 gL =
      (31702106329 / 1073741824, 36589470847 / 1073741824)"
    unfolding makeGroundDims_def l mulberry32_seed_1
    by (simp add: clamp_def mulberry32_seed_1_second)
  ultimately show ?thesis
    unfolding gE_def gL_def by simp
qed

text \<open>
  C9, amended: the width and height are a function of the seed, the variant, and of the
  score, the world speed and whether each of the two guards is active at the moment of
  the spawn; nothing else of the state, and no draw of the gameplay stream, enters them.
  Two calls that agree on these give the same width and height.
\<close>

theorem makeGroundDims_deterministic:
  assumes "score g = score h" and "worldSpeed g = worldSpeed h"
    and "(guardAfterPit g > 0) = (guardAfterPit h > 0)"
    and "(guardAfterLowFlyer g > 0) = (guardAfterLowFlyer h > 0)"
  shows "makeGroundDims v s g = makeGroundDims v s h"
proof -
  have "stage g = stage h" "difficulty01 g = difficulty01 h"
    "maxGroundWidthCap g = maxGroundWidthCap h" "maxGroundHeightCap g = maxGroundHeightCap h"
    using assms by (simp_all add: stage_def difficulty01_def maxGroundWidthCap_def
        maxGroundHeightCap_def)
  then show ?thesis by (simp add: makeGroundDims_def)
qed

theorem makeGroundDims_deterministic_witness:
  "makeGroundDims CACTUS_TALL 7 (declared 0 (\<lambda>_. 0)) =
   makeGroundDims CACTUS_TALL 7
     ((declared 5 (\<lambda>_. 1 / 2))\<lparr>lastKind := PIT, rndPos := 40, jumpDown := True\<rparr>)"
  using makeGroundDims_deterministic
    [of "declared 0 (\<lambda>_. 0)"
        "(declared 5 (\<lambda>_. 1 / 2))\<lparr>lastKind := PIT, rndPos := 40, jumpDown := True\<rparr>"
        CACTUS_TALL 7]
  by (simp add: declared_def)

subsection \<open>The guard after a pit\<close>

lemma spawnsGuarded_lowFlyers:
  assumes "spawnsGuarded h k" and "0 < guardAfterPit k"
  shows "\<exists>ob. obs k = obs h @ [ob] \<and> \<not> lowFlyer ob"
  using assms by (auto simp add: spawnsGuarded_def lowFlyer_def)

lemma update_lowFlyers:
  assumes "0 < guardAfterPit (update dt g)"
  shows "length (filter lowFlyer (obs (update dt g))) \<le> length (filter lowFlyer (obs g))"
proof (cases "state g")
  case READY
  then show ?thesis
    using update_READY_fields [OF READY, of dt] by (auto split: if_splits)
next
  case GAMEOVER
  then show ?thesis by (simp add: update_GAMEOVER)
next
  case RUNNING
  define g2 where
    "g2 = updateActor dt (updatePacing dt (updateJumpBuffer dt (updateParticles dt g)))"
  define g3 where "g3 = updateWorld dt g2"
  have o2: "obs g2 = obs g"
    using RUNNING updateActor_fields [of "updatePacing dt (updateJumpBuffer dt (updateParticles dt g))" dt]
    by (simp add: g2_def)
  have u: "update dt g =
      (if d_y (dino g2) > viewH g2 + 120 then gameOver g2
       else collideLoop (dinoHitbox g3) (obs g3) g3)"
    using RUNNING by (simp add: update_RUNNING Let_def g2_def g3_def)
  show ?thesis
  proof (cases "d_y (dino g2) > viewH g2 + 120")
    case True
    then show ?thesis by (simp add: u o2)
  next
    case False
    then have ug: "guardAfterPit (update dt g) = guardAfterPit g3"
      and uo: "obs (update dt g) = obs g3"
      by (simp_all add: u)
    from updateWorld_spawn [of g2 dt] obtain h k where
      h: "og g2 h" and k: "k = h \<or> spawnsGuarded h k"
      and gk: "guardAfterPit g3 = guardAfterPit k"
      and ok: "obs g3 = scrollTrim (worldSpeed g2 * dt) (obs k)"
      unfolding g3_def by blast
    have "filter lowFlyer (obs k) = filter lowFlyer (obs h)"
    proof (cases "k = h")
      case True
      then show ?thesis by simp
    next
      case False
      with k have "spawnsGuarded h k" by simp
      moreover have "0 < guardAfterPit k" using assms ug gk by simp
      ultimately obtain ob where "obs k = obs h @ [ob]" "\<not> lowFlyer ob"
        using spawnsGuarded_lowFlyers by blast
      then show ?thesis by simp
    qed
    moreover have "obs h = obs g" using h o2 by (simp add: og_def)
    ultimately have "length (filter lowFlyer (obs k)) = length (filter lowFlyer (obs g))"
      by simp
    then show ?thesis
      using scrollTrim_lowFlyers [of "worldSpeed g2 * dt" "obs k"] by (simp add: uo ok)
  qed
qed

lemma spawnPit_guard: "guardAfterPit (spawnPit width g) = SAFE_AFTER_PIT_DIST"
  by (cases width) (simp_all add: spawnPit_def split_beta Let_def)

lemma spawnsGuarded_one:
  assumes "spawnsGuarded h k"
  shows "\<exists>ob. obs k = obs h @ [ob] \<and>
           (kind ob = PIT \<longrightarrow> guardAfterPit k = SAFE_AFTER_PIT_DIST) \<and>
           (0 < guardAfterPit k \<longrightarrow> \<not> lowFlyer ob)"
  using assms by (auto simp add: spawnsGuarded_def lowFlyer_def)

lemma set_scrollTrim:
  "ob \<in> set (scrollTrim dx os) \<Longrightarrow> ob \<in> set (map (\<lambda>old. old\<lparr>ob_x := ob_x old - dx\<rparr>) os)"
  unfolding scrollTrim_def by (rule set_dropWhileD)

lemma update_spawned:
  assumes "spawnedIn dt g ob"
  shows "\<exists>ob0. ob = ob0\<lparr>ob_x := ob_x ob0 - worldSpeed (update dt g) * dt\<rparr> \<and>
           (kind ob0 = PIT \<longrightarrow> guardAfterPit (update dt g) = SAFE_AFTER_PIT_DIST) \<and>
           (0 < guardAfterPit (update dt g) \<longrightarrow> \<not> lowFlyer ob0)"
proof -
  from assms have mem: "ob \<in> set (obs (update dt g))" and old: "ob \<notin> set (obs g)"
    and moved: "ob \<notin> set (map (\<lambda>old. old\<lparr>ob_x := ob_x old - worldSpeed (update dt g) * dt\<rparr>) (obs g))"
    by (simp_all add: spawnedIn_def)
  show ?thesis
  proof (cases "state g")
    case READY
    then show ?thesis
      using update_READY_fields [OF READY, of dt] mem old by (auto split: if_splits)
  next
    case GAMEOVER
    then show ?thesis using mem old by (simp add: update_GAMEOVER)
  next
    case RUNNING
    define g2 where
      "g2 = updateActor dt (updatePacing dt (updateJumpBuffer dt (updateParticles dt g)))"
    define g3 where "g3 = updateWorld dt g2"
    have o2: "obs g2 = obs g"
      using RUNNING updateActor_fields [of "updatePacing dt (updateJumpBuffer dt (updateParticles dt g))" dt]
      by (simp add: g2_def)
    have u: "update dt g =
        (if d_y (dino g2) > viewH g2 + 120 then gameOver g2
         else collideLoop (dinoHitbox g3) (obs g3) g3)"
      using RUNNING by (simp add: update_RUNNING Let_def g2_def g3_def)
    show ?thesis
    proof (cases "d_y (dino g2) > viewH g2 + 120")
      case True
      then show ?thesis using mem old by (simp add: u o2)
    next
      case False
      then have ug: "guardAfterPit (update dt g) = guardAfterPit g3"
        and uo: "obs (update dt g) = obs g3"
        and uw: "worldSpeed (update dt g) = worldSpeed g2"
        by (simp_all add: u g3_def)
      from updateWorld_spawn [of g2 dt] obtain h k where
        h: "og g2 h" and k: "k = h \<or> spawnsGuarded h k"
        and gk: "guardAfterPit g3 = guardAfterPit k"
        and ok: "obs g3 = scrollTrim (worldSpeed g2 * dt) (obs k)"
        unfolding g3_def by blast
      have oh: "obs h = obs g" using h o2 by (simp add: og_def)
      from mem have m: "ob \<in> set (map (\<lambda>old. old\<lparr>ob_x := ob_x old - worldSpeed g2 * dt\<rparr>) (obs k))"
        unfolding uo ok by (rule set_scrollTrim)
      have "k \<noteq> h"
        using m moved by (auto simp add: uw oh)
      with k have "spawnsGuarded h k" by simp
      from spawnsGuarded_one [OF this] obtain ob0 where
        ob0: "obs k = obs h @ [ob0]"
          "kind ob0 = PIT \<longrightarrow> guardAfterPit k = SAFE_AFTER_PIT_DIST"
          "0 < guardAfterPit k \<longrightarrow> \<not> lowFlyer ob0"
        by blast
      have "ob = ob0\<lparr>ob_x := ob_x ob0 - worldSpeed g2 * dt\<rparr>"
        using m moved by (auto simp add: ob0(1) oh uw)
      then show ?thesis
        using ob0(2,3) by (auto simp add: uw ug gk)
    qed
  qed
qed

lemma step_lowFlyers:
  assumes "0 < guardAfterPit (step e g)"
  shows "length (filter lowFlyer (obs (step e g))) \<le> length (filter lowFlyer (obs g))"
proof (cases e)
  case Tick
  then show ?thesis using assms update_lowFlyers [of FIXED_DT g] by simp
qed (simp_all add: onKeyDown_def onKeyUp_def onPointerDown_def onPointerUp_def restartRun_def
      queueJump_def Let_def)

lemma runEvents_lowFlyers:
  "guardHeld es g \<Longrightarrow>
   length (filter lowFlyer (obs (runEvents es g))) \<le> length (filter lowFlyer (obs g))"
proof (induction es arbitrary: g)
  case Nil
  then show ?case by simp
next
  case (Cons e es)
  then have "length (filter lowFlyer (obs (runEvents es (step e g))))
      \<le> length (filter lowFlyer (obs (step e g)))"
    by simp
  also have "\<dots> \<le> length (filter lowFlyer (obs g))"
    using Cons.prems by (simp add: step_lowFlyers)
  finally show ?case by simp
qed

lemma runEvents_noLowSpawn: "guardHeld es g \<Longrightarrow> noLowSpawn es g"
proof (induction es arbitrary: g)
  case Nil
  then show ?case by simp
next
  case (Cons e es)
  have "\<not> lowFlyer ob" if "e = Tick" "spawnedIn FIXED_DT g ob" for ob
  proof -
    from Cons.prems that(1) have "0 < guardAfterPit (update FIXED_DT g)" by simp
    with update_spawned [OF that(2)] show ?thesis by (auto simp add: lowFlyer_def)
  qed
  with Cons show ?case by simp
qed

text \<open>
  C6. The spawn of a pit starts the guard: \<open>spawnPit\<close> sets the guard after a pit to
  \<open>SAFE_AFTER_PIT_DIST\<close>, which is positive, and the guard has that value after a call of
  the spawn director that appends a pit and at the end of a tick in which a pit is
  spawned. The spawn director appends exactly one obstacle; whenever the guard is
  positive after its call, because this call spawned the pit or because the guard of an
  earlier pit is not yet consumed, that obstacle is not a flyer of level 0. Under a
  positive guard a pattern step that asks for level 0 gets a flyer of level 1, and the
  obstacle of a single fair spawn is not a low flyer. A new obstacle of a tick that ends
  with a positive guard is not a low flyer. Over a run of events after each of which the
  guard is positive, no new obstacle of a tick is a low flyer and the number of low
  flyers among the obstacles does not grow; such a run may begin with the tick in which
  the pit is spawned, after which the guard is positive.
\<close>

theorem guard_suppresses_low_flyers:
  "guardAfterPit (spawnPit width g) = SAFE_AFTER_PIT_DIST \<and> 0 < SAFE_AFTER_PIT_DIST \<and>
   (\<exists>ob. obs (spawnManagerTick g) = obs g @ [ob] \<and>
         (kind ob = PIT \<longrightarrow> guardAfterPit (spawnManagerTick g) = SAFE_AFTER_PIT_DIST) \<and>
         (0 < guardAfterPit (spawnManagerTick g) \<longrightarrow> \<not> lowFlyer ob)) \<and>
   (0 < guardAfterPit g \<longrightarrow>
      (\<exists>ob. obs (spawnStep (StepFlyer gb (Some 0)) g) = obs g @ [ob] \<and>
            kind ob = FLYER \<and> flightLevel ob = Some 1) \<and>
      (\<exists>ob. obs (spawnSingleFair g) = obs g @ [ob] \<and> \<not> lowFlyer ob)) \<and>
   (spawnedIn dt g new \<and> kind new = PIT \<longrightarrow>
      guardAfterPit (update dt g) = SAFE_AFTER_PIT_DIST) \<and>
   (spawnedIn dt g new \<and> 0 < guardAfterPit (update dt g) \<longrightarrow> \<not> lowFlyer new) \<and>
   (0 < guardAfterPit (update dt g) \<longrightarrow>
      length (filter lowFlyer (obs (update dt g))) \<le> length (filter lowFlyer (obs g))) \<and>
   (guardHeld es g \<longrightarrow>
      noLowSpawn es g \<and>
      length (filter lowFlyer (obs (runEvents es g))) \<le> length (filter lowFlyer (obs g))) \<and>
   (spawnedIn FIXED_DT g new \<and> kind new = PIT \<and> guardHeld es (step Tick g) \<longrightarrow>
      guardHeld (Tick # es) g \<and> noLowSpawn (Tick # es) g \<and>
      length (filter lowFlyer (obs (runEvents (Tick # es) g)))
        \<le> length (filter lowFlyer (obs g)))"
proof (intro conjI impI)
  show "guardAfterPit (spawnPit width g) = SAFE_AFTER_PIT_DIST"
    by (rule spawnPit_guard)
  show "0 < SAFE_AFTER_PIT_DIST"
    by (simp add: SAFE_AFTER_PIT_DIST_def)
  show "\<exists>ob. obs (spawnManagerTick g) = obs g @ [ob] \<and>
         (kind ob = PIT \<longrightarrow> guardAfterPit (spawnManagerTick g) = SAFE_AFTER_PIT_DIST) \<and>
         (0 < guardAfterPit (spawnManagerTick g) \<longrightarrow> \<not> lowFlyer ob)"
    using spawnsGuarded_one [OF sg_manager] .
next
  assume pos: "0 < guardAfterPit g"
  then show "\<exists>ob. obs (spawnStep (StepFlyer gb (Some 0)) g) = obs g @ [ob] \<and>
            kind ob = FLYER \<and> flightLevel ob = Some 1"
    by (simp add: spawnFlyer_def Let_def)
next
  assume pos: "0 < guardAfterPit g"
  have "spawnsGuarded g (spawnSingleFair g)" by simp
  then show "\<exists>ob. obs (spawnSingleFair g) = obs g @ [ob] \<and> \<not> lowFlyer ob"
    using pos by (auto simp add: spawnsGuarded_def lowFlyer_def)
next
  assume "spawnedIn dt g new \<and> kind new = PIT"
  then show "guardAfterPit (update dt g) = SAFE_AFTER_PIT_DIST"
    using update_spawned [of dt g new] by auto
next
  assume "spawnedIn dt g new \<and> 0 < guardAfterPit (update dt g)"
  then show "\<not> lowFlyer new"
    using update_spawned [of dt g new] by (auto simp add: lowFlyer_def)
next
  assume "0 < guardAfterPit (update dt g)"
  then show "length (filter lowFlyer (obs (update dt g))) \<le> length (filter lowFlyer (obs g))"
    by (rule update_lowFlyers)
next
  assume "guardHeld es g"
  then show "noLowSpawn es g"
    by (rule runEvents_noLowSpawn)
next
  assume "guardHeld es g"
  then show "length (filter lowFlyer (obs (runEvents es g))) \<le> length (filter lowFlyer (obs g))"
    by (rule runEvents_lowFlyers)
next
  assume a: "spawnedIn FIXED_DT g new \<and> kind new = PIT \<and> guardHeld es (step Tick g)"
  then have "guardAfterPit (update FIXED_DT g) = SAFE_AFTER_PIT_DIST"
    using update_spawned [of FIXED_DT g new] by auto
  with a have h: "guardHeld (Tick # es) g"
    by (simp add: SAFE_AFTER_PIT_DIST_def)
  then show "guardHeld (Tick # es) g" .
  from h show "noLowSpawn (Tick # es) g"
    by (rule runEvents_noLowSpawn)
  from h show "length (filter lowFlyer (obs (runEvents (Tick # es) g)))
      \<le> length (filter lowFlyer (obs g))"
    by (rule runEvents_lowFlyers)
qed

theorem guard_suppresses_low_flyers_witness:
  "spawnedIn FIXED_DT
     ((startRunFresh (declared 0 (\<lambda>_. 1 / 8)))\<lparr>worldSpeed := 740, score := 1500,
        distSinceSpawn := 1000, patternCooldownDist := 100\<rparr>)
     \<lparr> kind = PIT, ob_x = 1212899 / 1800, ob_y = 272, ob_w = 435 / 4, ob_h = 84,
       flightLevel = None, variant = None, seed = None, hardness = Some (135 / 100) \<rparr> \<and>
   guardAfterPit (update FIXED_DT
     ((startRunFresh (declared 0 (\<lambda>_. 1 / 8)))\<lparr>worldSpeed := 740, score := 1500,
        distSinceSpawn := 1000, patternCooldownDist := 100\<rparr>)) = 240 \<and>
   map flightLevel (obs (spawnStep (StepFlyer 0 (Some 0))
     ((startRunFresh (declared 0 (\<lambda>_. 1 / 2)))\<lparr>worldSpeed := 740, score := 1500\<rparr>)))
     = [Some 0] \<and>
   map flightLevel (obs (spawnStep (StepFlyer 0 (Some 0)) (spawnPit None
     ((startRunFresh (declared 0 (\<lambda>_. 1 / 2)))\<lparr>worldSpeed := 740, score := 1500\<rparr>))))
     = [None, Some 1] \<and>
   obs (update FIXED_DT
     ((startRunFresh (declared 0 (\<lambda>_. 1 / 2)))\<lparr>worldSpeed := 740, score := 1500,
        distSinceSpawn := 1000,
        patternQueue := Some [StepPit 0 None, StepFlyer 0 (Some 0)]\<rparr>)) =
     [\<lparr> kind = PIT, ob_x = 1212899 / 1800, ob_y = 272, ob_w = 165, ob_h = 84,
        flightLevel = None, variant = None, seed = None, hardness = Some (135 / 100) \<rparr>] \<and>
   guardHeld [Tick, Tick]
     ((startRunFresh (declared 0 (\<lambda>_. 1 / 2)))\<lparr>worldSpeed := 740, score := 1500,
        distSinceSpawn := 1000,
        patternQueue := Some [StepPit 0 None, StepFlyer 0 (Some 0)]\<rparr>) \<and>
   noLowSpawn [Tick, Tick]
     ((startRunFresh (declared 0 (\<lambda>_. 1 / 2)))\<lparr>worldSpeed := 740, score := 1500,
        distSinceSpawn := 1000,
        patternQueue := Some [StepPit 0 None, StepFlyer 0 (Some 0)]\<rparr>) \<and>
   obs (runEvents [Tick, Tick]
     ((startRunFresh (declared 0 (\<lambda>_. 1 / 2)))\<lparr>worldSpeed := 740, score := 1500,
        distSinceSpawn := 1000,
        patternQueue := Some [StepPit 0 None, StepFlyer 0 (Some 0)]\<rparr>)) =
     [\<lparr> kind = PIT, ob_x = 133533 / 200, ob_y = 272, ob_w = 165, ob_h = 84,
        flightLevel = None, variant = None, seed = None, hardness = Some (135 / 100) \<rparr>,
      \<lparr> kind = FLYER, ob_x = 606449 / 900, ob_y = 198, ob_w = 48, ob_h = 24,
        flightLevel = Some 1, variant = None, seed = None, hardness = Some (75 / 100) \<rparr>] \<and>
   filter lowFlyer (obs (runEvents [Tick, Tick]
     ((startRunFresh (declared 0 (\<lambda>_. 1 / 2)))\<lparr>worldSpeed := 740, score := 1500,
        distSinceSpawn := 1000,
        patternQueue := Some [StepPit 0 None, StepFlyer 0 (Some 0)]\<rparr>))) = []"
proof -
  define ga where
    "ga = (startRunFresh (declared 0 (\<lambda>_. 1 / 8)))\<lparr>worldSpeed := 740, score := 1500,
        distSinceSpawn := 1000, patternCooldownDist := 100\<rparr>"
  define gc where
    "gc = (startRunFresh (declared 0 (\<lambda>_. 1 / 2)))\<lparr>worldSpeed := 740, score := 1500\<rparr>"
  define gb where
    "gb = gc\<lparr>distSinceSpawn := 1000,
        patternQueue := Some [StepPit 0 None, StepFlyer 0 (Some 0)]\<rparr>"
  define pit where
    "pit = \<lparr> kind = PIT, ob_x = 1212899 / 1800, ob_y = 272, ob_w = 435 / 4, ob_h = 84,
       flightLevel = None, variant = None, seed = None, hardness = Some (135 / 100) \<rparr>"
  define pitb where
    "pitb = \<lparr> kind = PIT, ob_x = 1212899 / 1800, ob_y = 272, ob_w = 165, ob_h = 84,
       flightLevel = None, variant = None, seed = None, hardness = Some (135 / 100) \<rparr>"
  have a: "obs ga = []" "obs (update FIXED_DT ga) = [pit]"
    by (simp_all add: ga_def pit_def tick_defs)
  then have sp: "spawnedIn FIXED_DT ga pit" "kind pit = PIT"
    by (simp_all add: spawnedIn_def pit_def)
  have c0: "map flightLevel (obs (spawnStep (StepFlyer 0 (Some 0)) gc)) = [Some 0]"
    by (simp add: gc_def tick_defs)
  have c1: "obs (spawnPit None gc) =
      [\<lparr> kind = PIT, ob_x = 680, ob_y = 272, ob_w = 165, ob_h = 84,
        flightLevel = None, variant = None, seed = None, hardness = Some (135 / 100) \<rparr>]"
    by (simp add: gc_def tick_defs)
  have b: "obs gb = []" "obs (update FIXED_DT gb) = [pitb]"
    by (simp_all add: gb_def gc_def pitb_def tick_defs)
  then have spb: "spawnedIn FIXED_DT gb pitb" "kind pitb = PIT"
    by (simp_all add: spawnedIn_def pitb_def)
  have b2: "guardAfterPit (update FIXED_DT (update FIXED_DT gb)) = 210449 / 900"
    by (simp add: gb_def gc_def tick_defs)
  have b3: "obs (update FIXED_DT (update FIXED_DT gb)) =
     [\<lparr> kind = PIT, ob_x = 133533 / 200, ob_y = 272, ob_w = 165, ob_h = 84,
        flightLevel = None, variant = None, seed = None, hardness = Some (135 / 100) \<rparr>,
      \<lparr> kind = FLYER, ob_x = 606449 / 900, ob_y = 198, ob_w = 48, ob_h = 24,
        flightLevel = Some 1, variant = None, seed = None, hardness = Some (75 / 100) \<rparr>]"
    by (simp add: gb_def gc_def tick_defs)
  have gh1: "guardHeld [Tick] (step Tick gb)" by (simp add: b2)
  note t1 = guard_suppresses_low_flyers [of None gc 0 FIXED_DT pit "[]"]
  note t2 = guard_suppresses_low_flyers [of None ga 0 FIXED_DT pit "[]"]
  note t3 = guard_suppresses_low_flyers [of None "spawnPit None gc" 0 FIXED_DT pit "[]"]
  note t4 = guard_suppresses_low_flyers [of None gb 0 FIXED_DT pitb "[Tick]"]
  have p: "guardAfterPit (spawnPit None gc) = SAFE_AFTER_PIT_DIST" "0 < SAFE_AFTER_PIT_DIST"
    using t1 by simp_all
  have "guardAfterPit (update FIXED_DT ga) = 240"
    using t2 sp by (simp add: SAFE_AFTER_PIT_DIST_def)
  moreover have "map flightLevel (obs (spawnStep (StepFlyer 0 (Some 0)) (spawnPit None gc)))
      = [None, Some 1]"
    using t3 p by (auto simp add: c1)
  moreover from t4 spb gh1 have w: "guardHeld [Tick, Tick] gb" "noLowSpawn [Tick, Tick] gb"
    "length (filter lowFlyer (obs (runEvents [Tick, Tick] gb))) \<le> length (filter lowFlyer (obs gb))"
    by blast+
  moreover from w(3) have "filter lowFlyer (obs (runEvents [Tick, Tick] gb)) = []"
    by (simp add: b)
  moreover have "obs (runEvents [Tick, Tick] gb) = obs (update FIXED_DT (update FIXED_DT gb))"
    by simp
  ultimately show ?thesis
    using sp c0 b(2) b3
    unfolding ga_def [symmetric] gc_def [symmetric] pit_def [symmetric] pitb_def [symmetric]
    unfolding gb_def [symmetric]
    by (simp only: simp_thms)
qed

subsection \<open>The jump cut\<close>

lemma onKeyDown_jump:
  "jumpKey code \<Longrightarrow> \<not> jumpDown g \<Longrightarrow> onKeyDown code False g = (queueJump g)\<lparr>jumpDown := True\<rparr>"
  by (auto simp add: jumpKey_def onKeyDown_def)

lemma onKeyUp_jump: "jumpKey code \<Longrightarrow> onKeyUp code g = cutJumpIfNeeded (g\<lparr>jumpDown := False\<rparr>)"
  by (auto simp add: jumpKey_def onKeyUp_def)

lemma actorControl_jump:
  assumes "state g = RUNNING" "d_onGround (dino g)" "0 < jumpBuffer g"
  shows "actorControl dt g =
           performJump ((applyDuckVisual (downDown g) g)\<lparr>coyote := COYOTE_TIME\<rparr>)"
  using assms by (simp add: actorControl_def Let_def tryConsumeJump_RUNNING)

lemma updateActor_jump_vy:
  assumes "state g = RUNNING" "d_onGround (dino g)" "0 < jumpBuffer g" "jumpDown g"
  shows "d_vy (dino (updateActor FIXED_DT g)) =
           JUMP_VELOCITY +
           (if downDown g then GRAVITY * HOLD_GRAVITY_MULT * FAST_FALL_MULT
            else GRAVITY * HOLD_GRAVITY_MULT) * FIXED_DT"
proof -
  define c where "c = actorControl FIXED_DT g"
  have c: "dino c = (dino (applyDuckVisual (downDown g) g))
              \<lparr> d_ducking := False, d_w := STAND_W, d_h := STAND_H,
                d_y := groundY g - STAND_H, d_vy := JUMP_VELOCITY, d_onGround := False \<rparr>"
    "jumpHold c = 0" "jumpDown c" "downDown c = downDown g" "groundY c = groundY g"
    using assms by (simp_all add: c_def actorControl_jump [OF assms(1,2,3)])
  define p where "p = actorGravity FIXED_DT c"
  define v where "v = JUMP_VELOCITY +
           (if downDown g then GRAVITY * HOLD_GRAVITY_MULT * FAST_FALL_MULT
            else GRAVITY * HOLD_GRAVITY_MULT) * FIXED_DT"
  have v: "v < 0" by (simp add: v_def consts_defs)
  have p: "d_vy (dino p) = v" "d_y (dino p) = groundY g - STAND_H + v * FIXED_DT"
    "d_h (dino p) = STAND_H" "groundY p = groundY g"
    by (simp_all add: p_def actorGravity_def Let_def c v_def consts_defs)
  have "v * FIXED_DT < 0" using v by (simp add: FIXED_DT_def)
  then have "\<not> d_y (dino p) \<ge> groundY p - d_h (dino p)" by (simp add: p)
  then have "d_vy (dino (actorGround p)) = d_vy (dino p)"
    by (simp add: actorGround_def Let_def)
  then show ?thesis
    by (simp add: updateActor_def c_def [symmetric] p_def [symmetric] p v_def)
qed

lemma jump_tick_vy:
  assumes "state g \<noteq> GAMEOVER" "d_onGround (dino g)" "jumpBuffer g = JUMP_BUFFER_TIME"
    "jumpDown g"
  shows "d_vy (dino (update FIXED_DT g)) < JUMP_CUT_VELOCITY"
proof (cases "state g")
  case READY
  define h where
    "h = (updateJumpBuffer FIXED_DT (updateParticles FIXED_DT g))\<lparr>coyote := COYOTE_TIME\<rparr>"
  have h: "state h = READY" "0 < jumpBuffer h"
    using READY assms(3) by (simp_all add: h_def consts_defs)
  have "update FIXED_DT g = performJump (startRunFresh h)"
    using READY by (simp add: update_READY h_def [symmetric] tryConsumeJump_READY [OF h])
  then show ?thesis by (simp add: consts_defs)
next
  case RUNNING
  define q where "q = updatePacing FIXED_DT (updateJumpBuffer FIXED_DT (updateParticles FIXED_DT g))"
  have q: "state q = RUNNING" "d_onGround (dino q)" "0 < jumpBuffer q" "jumpDown q"
    using RUNNING assms by (simp_all add: q_def consts_defs)
  have "d_vy (dino (update FIXED_DT g)) = d_vy (dino (updateActor FIXED_DT q))"
    using RUNNING by (simp add: update_RUNNING Let_def q_def [symmetric])
  then show ?thesis
    using updateActor_jump_vy [OF q] by (simp add: consts_defs)
next
  case GAMEOVER
  with assms(1) show ?thesis by simp
qed

text \<open>
  A press only fills the jump buffer; the jump itself is performed by the next tick. A
  release that comes before that tick finds the actor still on the ground and leaves its
  velocity as it is.
\<close>

lemma release_before_tick_keeps_velocity:
  assumes "jumpKey code" and "\<not> jumpDown g" and "JUMP_CUT_VELOCITY \<le> d_vy (dino g)"
  shows "d_vy (dino (step (KeyUp code) (step (KeyDown code False) g))) = d_vy (dino g)"
    and "d_onGround (dino (step (KeyUp code) (step (KeyDown code False) g))) = d_onGround (dino g)"
  using assms by (simp_all add: onKeyDown_jump onKeyUp_jump queueJump_def cutJumpIfNeeded_def)

lemma press_release_state:
  assumes "jumpKey code" and "\<not> jumpDown g" and "JUMP_CUT_VELOCITY \<le> d_vy (dino g)"
  shows "step (KeyUp code) (step (KeyDown code False) g) =
           g\<lparr>jumpBuffer := JUMP_BUFFER_TIME, jumpDown := False\<rparr>"
  using assms by (simp add: onKeyDown_jump onKeyUp_jump queueJump_def cutJumpIfNeeded_def)

text \<open>
  C7, as stated: with the actor on the ground, the jump pressed and released at once, the
  vertical velocity after the release is the jump-cut velocity. It fails: the press only
  fills the jump buffer, so at the release the actor is still on the ground with velocity
  0, which the release keeps; the next tick then performs the buffered jump at the full
  jump velocity, with the jump no longer held.
\<close>

theorem jump_release_counterexample:
  "state (startGame 800 450 0 (\<lambda>_. 1 / 2)) = READY \<and>
   d_onGround (dino (startGame 800 450 0 (\<lambda>_. 1 / 2))) \<and>
   JUMP_CUT_VELOCITY = - 220 \<and>
   d_vy (dino (step (KeyUp ''Space'') (step (KeyDown ''Space'' False)
     (startGame 800 450 0 (\<lambda>_. 1 / 2))))) = 0 \<and>
   d_onGround (dino (step (KeyUp ''Space'') (step (KeyDown ''Space'' False)
     (startGame 800 450 0 (\<lambda>_. 1 / 2))))) \<and>
   d_vy (dino (step Tick (step (KeyUp ''Space'') (step (KeyDown ''Space'' False)
     (startGame 800 450 0 (\<lambda>_. 1 / 2)))))) = - 640 \<and>
   \<not> jumpDown (step Tick (step (KeyUp ''Space'') (step (KeyDown ''Space'' False)
     (startGame 800 450 0 (\<lambda>_. 1 / 2)))))"
proof -
  define g where "g = startGame 800 450 0 (\<lambda>_. 1 / 2)"
  have g: "state g = READY" "d_onGround (dino g)" "\<not> jumpDown g" "d_vy (dino g) = 0"
    by (simp_all add: g_def startGame_def declared_def)
  have k: "jumpKey ''Space''" by (simp add: jumpKey_def)
  have c: "JUMP_CUT_VELOCITY \<le> d_vy (dino g)" by (simp add: g JUMP_CUT_VELOCITY_def)
  define r where "r = step (KeyUp ''Space'') (step (KeyDown ''Space'' False) g)"
  have r: "r = g\<lparr>jumpBuffer := JUMP_BUFFER_TIME, jumpDown := False\<rparr>"
    unfolding r_def by (rule press_release_state [OF k g(3) c])
  define h where
    "h = (updateJumpBuffer FIXED_DT (updateParticles FIXED_DT r))\<lparr>coyote := COYOTE_TIME\<rparr>"
  have h: "state h = READY" "0 < jumpBuffer h" "\<not> jumpDown h"
    by (simp_all add: h_def r g consts_defs)
  have "state r = READY" by (simp add: r g)
  then have "update FIXED_DT r = performJump (startRunFresh h)"
    by (simp add: update_READY h_def [symmetric] tryConsumeJump_READY [OF h(1,2)])
  then have t: "d_vy (dino (step Tick r)) = - 640" "\<not> jumpDown (step Tick r)"
    using h(3) by (simp_all add: JUMP_VELOCITY_def)
  have "d_vy (dino r) = 0" "d_onGround (dino r)" by (simp_all add: r g)
  with t g show ?thesis
    unfolding g_def [symmetric] r_def [symmetric] by (simp add: JUMP_CUT_VELOCITY_def)
qed

text \<open>
  C7, amended: releasing the jump clamps the vertical velocity to the jump-cut velocity:
  a faster ascent is replaced by \<open>JUMP_CUT_VELOCITY\<close>, anything else is kept. In the
  scenario of a grounded actor, the jump pressed, the tick that performs the buffered
  jump, and the jump released at once after that tick, before the apex, the actor ascends
  faster than the cut velocity at the release, and its velocity after the release is
  exactly \<open>JUMP_CUT_VELOCITY\<close>. A release that comes before that tick finds the actor on
  the ground, not ascending faster than the cut velocity, and leaves its velocity
  unchanged.
\<close>

theorem jump_release_cuts_velocity:
  assumes "jumpKey code" and "state g \<noteq> GAMEOVER" and "d_onGround (dino g)"
    and "\<not> jumpDown g"
  shows "d_vy (dino (onKeyUp code h)) = max (d_vy (dino h)) JUMP_CUT_VELOCITY \<and>
         d_vy (dino (onPointerUp h)) = max (d_vy (dino h)) JUMP_CUT_VELOCITY \<and>
         d_vy (dino (step (KeyDown code False) g)) = d_vy (dino g) \<and>
         d_vy (dino (step Tick (step (KeyDown code False) g))) < JUMP_CUT_VELOCITY \<and>
         d_vy (dino (step (KeyUp code) (step Tick (step (KeyDown code False) g))))
           = JUMP_CUT_VELOCITY \<and>
         d_vy (dino (step PointerUp (step Tick (step PointerDown g)))) = JUMP_CUT_VELOCITY \<and>
         (JUMP_CUT_VELOCITY \<le> d_vy (dino g) \<longrightarrow>
            d_vy (dino (step (KeyUp code) (step (KeyDown code False) g))) = d_vy (dino g) \<and>
            d_onGround (dino (step (KeyUp code) (step (KeyDown code False) g))))"
proof -
  have cut: "\<And>k. d_vy (dino (cutJumpIfNeeded k)) = max (d_vy (dino k)) JUMP_CUT_VELOCITY"
    by (simp add: cutJumpIfNeeded_def max_def)
  define g1 where "g1 = step (KeyDown code False) g"
  have g1: "g1 = (queueJump g)\<lparr>jumpDown := True\<rparr>"
    using assms by (simp add: g1_def onKeyDown_jump)
  have "state g1 \<noteq> GAMEOVER" "d_onGround (dino g1)" "jumpBuffer g1 = JUMP_BUFFER_TIME"
    "jumpDown g1"
    using assms by (simp_all add: g1 queueJump_def)
  from jump_tick_vy [OF this]
  have t: "d_vy (dino (step Tick g1)) < JUMP_CUT_VELOCITY" by simp
  have k: "d_vy (dino g1) = d_vy (dino g)" by (simp add: g1 queueJump_def)
  have early: "JUMP_CUT_VELOCITY \<le> d_vy (dino g) \<longrightarrow>
      d_vy (dino (step (KeyUp code) g1)) = d_vy (dino g) \<and>
      d_onGround (dino (step (KeyUp code) g1))"
    unfolding g1_def
    using release_before_tick_keeps_velocity [OF assms(1,4)] assms(3) by simp
  have "step PointerDown g = g1"
    using assms(2) by (simp add: g1 onPointerDown_def)
  then show ?thesis
    unfolding g1_def [symmetric]
    using t k early assms(1) by (simp add: onKeyUp_jump onPointerUp_def cut)
qed

theorem jump_release_cuts_velocity_witness:
  "jumpKey ''Space'' \<and> state (startGame 800 450 0 (\<lambda>_. 1 / 2)) = READY \<and>
   d_onGround (dino (startGame 800 450 0 (\<lambda>_. 1 / 2))) \<and>
   \<not> jumpDown (startGame 800 450 0 (\<lambda>_. 1 / 2)) \<and>
   d_vy (dino (step (KeyUp ''Space'') (step Tick (step (KeyDown ''Space'' False)
     (startGame 800 450 0 (\<lambda>_. 1 / 2)))))) = - 220 \<and>
   d_vy (dino (step (KeyUp ''Space'') (step (KeyDown ''Space'' False)
     (startGame 800 450 0 (\<lambda>_. 1 / 2))))) = 0"
proof -
  have a: "jumpKey ''Space''" by (simp add: jumpKey_def)
  have b: "state (startGame 800 450 0 (\<lambda>_. 1 / 2)) = READY"
    "d_onGround (dino (startGame 800 450 0 (\<lambda>_. 1 / 2)))"
    "\<not> jumpDown (startGame 800 450 0 (\<lambda>_. 1 / 2))"
    "d_vy (dino (startGame 800 450 0 (\<lambda>_. 1 / 2))) = 0"
    by (simp_all add: startGame_def declared_def)
  from b(1) have c: "state (startGame 800 450 0 (\<lambda>_. 1 / 2)) \<noteq> GAMEOVER" by simp
  from jump_release_cuts_velocity [OF a c b(2,3)] a b show ?thesis
    by (simp add: JUMP_CUT_VELOCITY_def)
qed

subsection \<open>The run state machine\<close>

lemma onKeyDown_state:
  "state (onKeyDown code repeat g) =
     (if \<not> repeat \<and> code = ''KeyR'' then (if state g = GAMEOVER then RUNNING else READY)
      else state g)"
  by (simp add: onKeyDown_def restartRun_def queueJump_def Let_def)

lemma onPointerDown_state:
  "state (onPointerDown g) = (if state g = GAMEOVER then RUNNING else state g)"
  by (simp add: onPointerDown_def restartRun_def queueJump_def)

text \<open>
  C3, as stated: no input intent leaves RUNNING. It fails: in a running game the reset
  key returns to READY. The running state below is reached from the start by a jump key
  and one tick.
\<close>

theorem running_reset_counterexample:
  "reachable (step Tick (step (KeyDown ''Space'' False) (startGame 800 450 0 (\<lambda>_. 1 / 2)))) \<and>
   state (step Tick (step (KeyDown ''Space'' False) (startGame 800 450 0 (\<lambda>_. 1 / 2))))
     = RUNNING \<and>
   state (step (KeyDown ''KeyR'' False)
           (step Tick (step (KeyDown ''Space'' False) (startGame 800 450 0 (\<lambda>_. 1 / 2)))))
     = READY"
proof -
  define g0 where "g0 = startGame 800 450 0 (\<lambda>_. 1 / 2)"
  define g1 where "g1 = step (KeyDown ''Space'' False) g0"
  have r: "reachable (step Tick g1)"
    unfolding g1_def g0_def by (intro reachable_step reachable_start) simp
  have g1: "state g1 = READY" "jumpBuffer g1 = JUMP_BUFFER_TIME"
    by (simp_all add: g1_def g0_def startGame_def declared_def onKeyDown_def queueJump_def)
  have "0 < jumpBuffer (updateJumpBuffer FIXED_DT g1)"
    by (simp add: updateJumpBuffer_def g1 consts_defs)
  with update_READY_fields [OF g1(1), of FIXED_DT]
  have s: "state (step Tick g1) = RUNNING" by simp
  then have "state (step (KeyDown ''KeyR'' False) (step Tick g1)) = READY"
    by (simp add: onKeyDown_state del: step.simps(6))
  with r s show ?thesis unfolding g1_def g0_def by blast
qed

text \<open>
  C3, amended: from GAMEOVER only the restart intent (the reset key or a pointer press)
  changes the lifecycle state, to RUNNING; from READY only a tick with a jump intent
  pending in the jump buffer changes it, to RUNNING; RUNNING is left by a tick with a
  fatal fall or a fatal collision, to GAMEOVER, and by the reset key, to READY, and by no
  other input intent.
\<close>

theorem state_machine_closure:
  "(state g = GAMEOVER \<and> state (step e g) \<noteq> GAMEOVER \<longrightarrow>
      (e = KeyDown ''KeyR'' False \<or> e = PointerDown) \<and> state (step e g) = RUNNING) \<and>
   (state g = READY \<and> state (step e g) \<noteq> READY \<longrightarrow>
      e = Tick \<and> 0 < jumpBuffer g \<and> state (step e g) = RUNNING) \<and>
   (state g = RUNNING \<and> state (step e g) \<noteq> RUNNING \<longrightarrow>
      (e = Tick \<and> state (step e g) = GAMEOVER \<and> fatal (step e g)) \<or>
      (e = KeyDown ''KeyR'' False \<and> state (step e g) = READY))"
proof (cases e)
  case (KeyDown code repeat)
  then show ?thesis by (auto simp add: onKeyDown_state split: if_splits)
next
  case (KeyUp code)
  then show ?thesis by (simp add: onKeyUp_def)
next
  case PointerDown
  then show ?thesis by (simp add: onPointerDown_state)
next
  case PointerUp
  then show ?thesis by (simp add: onPointerUp_def)
next
  case (Resize rw rh)
  then show ?thesis by simp
next
  case Tick
  have ready: "e = Tick \<and> 0 < jumpBuffer g \<and> state (step e g) = RUNNING"
    if "state g = READY" "state (step e g) \<noteq> READY"
    using that update_READY_fields [OF that(1), of FIXED_DT]
      updateJumpBuffer_pending [of FIXED_DT g]
    by (auto simp add: Tick split: if_splits)
  have running: "state (step e g) = GAMEOVER \<and> fatal (step e g)"
    if "state g = RUNNING" "state (step e g) \<noteq> RUNNING"
    using that update_RUNNING_state [OF that(1), of FIXED_DT] by (auto simp add: Tick)
  have over: "state (step e g) = GAMEOVER" if "state g = GAMEOVER"
    using update_GAMEOVER_fields [OF that, of FIXED_DT] by (simp add: Tick)
  from ready running over Tick show ?thesis by blast
qed

theorem state_machine_closure_witness:
  "state (startRunFresh (declared 0 (\<lambda>_. 1 / 2))) = RUNNING \<and>
   state (step (KeyDown ''KeyR'' False) (startRunFresh (declared 0 (\<lambda>_. 1 / 2)))) = READY \<and>
   state (gameOver (declared 0 (\<lambda>_. 1 / 2))) = GAMEOVER \<and>
   state (step PointerDown (gameOver (declared 0 (\<lambda>_. 1 / 2)))) = RUNNING \<and>
   state (queueJump (declared 0 (\<lambda>_. 1 / 2))) = READY \<and>
   0 < jumpBuffer (queueJump (declared 0 (\<lambda>_. 1 / 2))) \<and>
   state (step Tick (queueJump (declared 0 (\<lambda>_. 1 / 2)))) = RUNNING"
proof -
  have a: "state (startRunFresh (declared 0 (\<lambda>_. 1 / 2))) = RUNNING"
    and b: "state (step (KeyDown ''KeyR'' False) (startRunFresh (declared 0 (\<lambda>_. 1 / 2)))) = READY"
    and c: "state (gameOver (declared 0 (\<lambda>_. 1 / 2))) = GAMEOVER"
    and d: "state (step PointerDown (gameOver (declared 0 (\<lambda>_. 1 / 2)))) = RUNNING"
    and e: "state (queueJump (declared 0 (\<lambda>_. 1 / 2))) = READY"
    by (simp_all add: onKeyDown_state onPointerDown_state queueJump_def declared_def)
  have "0 < jumpBuffer (updateJumpBuffer FIXED_DT (queueJump (declared 0 (\<lambda>_. 1 / 2))))"
    by (simp add: updateJumpBuffer_def queueJump_def consts_defs)
  with update_READY_fields [OF e, of FIXED_DT]
  have f: "state (step Tick (queueJump (declared 0 (\<lambda>_. 1 / 2)))) \<noteq> READY" by simp
  from state_machine_closure [of "queueJump (declared 0 (\<lambda>_. 1 / 2))" Tick] e f
  have "0 < jumpBuffer (queueJump (declared 0 (\<lambda>_. 1 / 2))) \<and>
        state (step Tick (queueJump (declared 0 (\<lambda>_. 1 / 2)))) = RUNNING"
    by blast
  with a b c d e show ?thesis by blast
qed

subsection \<open>Idle ticks\<close>

text \<open>
  C8. In the READY and GAMEOVER states of a running game, an update leaves the world
  speed, the score and the obstacle list as they are: nothing is spawned, moved or
  trimmed. (A READY tick that consumes a buffered jump starts the run; the speed, the
  score and the empty obstacle list it writes are those the READY state already has.)
\<close>

theorem idle_tick_keeps_run:
  assumes "reachable g" and "state g = READY \<or> state g = GAMEOVER"
  shows "worldSpeed (update dt g) = worldSpeed g \<and> score (update dt g) = score g \<and>
         obs (update dt g) = obs g \<and>
         worldSpeed (step Tick g) = worldSpeed g \<and> score (step Tick g) = score g \<and>
         obs (step Tick g) = obs g"
proof -
  have inv: "state g = READY \<longrightarrow> worldSpeed g = 260 \<and> score g = 0 \<and> obs g = []"
    using reachable_runInv [OF assms(1)] by (simp add: runInv_def)
  have "worldSpeed (update t g) = worldSpeed g \<and> score (update t g) = score g \<and>
        obs (update t g) = obs g" for t
  proof (cases "state g = READY")
    case True
    with inv update_READY_fields [OF True, of t] show ?thesis
      by (auto split: if_splits)
  next
    case False
    with assms(2) have "state g = GAMEOVER" by simp
    from update_GAMEOVER_fields [OF this, of t] show ?thesis by simp
  qed
  from this [of dt] this [of FIXED_DT] show ?thesis by simp
qed

theorem idle_tick_keeps_run_witness:
  "reachable (step (KeyDown ''Space'' False) (startGame 800 450 0 (\<lambda>_. 1 / 2))) \<and>
   state (step (KeyDown ''Space'' False) (startGame 800 450 0 (\<lambda>_. 1 / 2))) = READY \<and>
   state (step Tick (step (KeyDown ''Space'' False) (startGame 800 450 0 (\<lambda>_. 1 / 2))))
     = RUNNING \<and>
   worldSpeed (step Tick (step (KeyDown ''Space'' False) (startGame 800 450 0 (\<lambda>_. 1 / 2))))
     = 260 \<and>
   score (step Tick (step (KeyDown ''Space'' False) (startGame 800 450 0 (\<lambda>_. 1 / 2)))) = 0 \<and>
   obs (step Tick (step (KeyDown ''Space'' False) (startGame 800 450 0 (\<lambda>_. 1 / 2)))) = []"
proof -
  define g1 where "g1 = step (KeyDown ''Space'' False) (startGame 800 450 0 (\<lambda>_. 1 / 2))"
  have r: "reachable g1"
    unfolding g1_def by (intro reachable_step reachable_start) simp
  have g1: "state g1 = READY" "jumpBuffer g1 = JUMP_BUFFER_TIME" "worldSpeed g1 = 260"
    "score g1 = 0" "obs g1 = []"
    by (simp_all add: g1_def startGame_def declared_def onKeyDown_def queueJump_def)
  have "0 < jumpBuffer (updateJumpBuffer FIXED_DT g1)"
    by (simp add: updateJumpBuffer_def g1 consts_defs)
  with update_READY_fields [OF g1(1), of FIXED_DT]
  have s: "state (step Tick g1) = RUNNING" by simp
  from idle_tick_keeps_run [OF r, of FIXED_DT] g1
  have "worldSpeed (step Tick g1) = 260 \<and> score (step Tick g1) = 0 \<and> obs (step Tick g1) = []"
    by simp
  with r s g1(1) show ?thesis unfolding g1_def by blast
qed

end
